theory Spec2Isabelle
  imports Complex_Main "HOL-Library.Log_Nat"
begin

section \<open>Values\<close>

text \<open>
  The service is JavaScript, whose numbers are binary64 floating-point values. A number
  is modelled by the rational it denotes. The counters that the service folds (kills,
  deaths, rounds, shots) are non-negative integers delivered by the upstream provider;
  they are modelled as \<open>nat\<close>, and JavaScript's \<open>+\<close> on them is exact as long as the sums
  stay below \<open>2 ^ 53\<close>. The quotients and products of the derived statistics are rounded to
  the nearest binary64 value, as JavaScript rounds them (\<open>binary64\<close> below); for counters
  below \<open>2 ^ 53\<close> they are zero or in the normal range, so neither overflow nor gradual
  underflow is modelled.

  The derived fields of a statistics object hold either a number or, where the source
  calls \<open>toFixed\<close>, a string; a property that has not been assigned reads as undefined.
\<close>

datatype jsval = Undefined | Null | Num rat | Str string

subsection \<open>Rounding to binary64\<close>

definition pow2 :: "int \<Rightarrow> rat" where
  "pow2 e = (if 0 \<le> e then 2 ^ nat e else 1 / 2 ^ nat (- e))"

text \<open>
  The exponent of a positive rational \<open>x\<close>, that is the \<open>e\<close> with \<open>2 ^ e \<le> x < 2 ^ (e + 1)\<close>,
  from the bit lengths of its numerator and denominator.
\<close>

definition floor_log2 :: "rat \<Rightarrow> int" where
  "floor_log2 x =
     (let (a, b) = quotient_of x; t = bitlen a - bitlen b
      in if pow2 t \<le> x then t else t - 1)"

definition round_half_even :: "rat \<Rightarrow> int" where
  "round_half_even q =
     (let n = \<lfloor>q\<rfloor>; r = q - of_int n
      in if r < 1 / 2 then n else if 1 / 2 < r then n + 1 else if even n then n else n + 1)"

text \<open>
  The nearest value with a significand of 53 bits, a tie going to the even significand:
  with \<open>u\<close> the unit in the last place of \<open>x\<close>, the nearest multiple of \<open>u\<close>.
\<close>

definition binary64 :: "rat \<Rightarrow> rat" where
  "binary64 x =
     (if x = 0 then 0
      else (let u = pow2 (floor_log2 \<bar>x\<bar> - 52)
            in of_int (round_half_even (x / u)) * u))"

subsection \<open>Number formatting\<close>

definition digit_char :: "nat \<Rightarrow> char" where
  "digit_char d = char_of (48 + d)"

fun show_nat :: "nat \<Rightarrow> string" where
  "show_nat n = (if n < 10 then [digit_char n] else show_nat (n div 10) @ [digit_char (n mod 10)])"

declare show_nat.simps [simp del]

text \<open>
  The template literal \<open>${count}\<close> of an integer: its decimal digits, after a minus sign
  when it is negative.
\<close>

definition show_int :: "int \<Rightarrow> string" where
  "show_int i = (if i < 0 then CHR ''-'' # show_nat (nat (- i)) else show_nat (nat i))"

text \<open>
  The decimal notation of \<open>n / 10 ^ f\<close>: the digits of \<open>n\<close>, padded on the left with zeros
  to \<open>f + 1\<close> digits, with a point before the last \<open>f\<close> digits (no point when \<open>f = 0\<close>).
\<close>

definition decimal :: "nat \<Rightarrow> nat \<Rightarrow> string" where
  "decimal f n =
     (let m = show_nat n;
          m' = (if f = 0 then m else replicate (f + 1 - length m) CHR ''0'' @ m);
          k = length m'
      in if f = 0 then m' else take (k - f) m' @ ''.'' @ drop (k - f) m')"

text \<open>
  \<open>Number.prototype.toFixed(f)\<close> (ECMA-262): for \<open>x < 0\<close> a minus sign and the
  rendering of \<open>- x\<close>; otherwise the decimal notation of \<open>n / 10 ^ f\<close> for the integer \<open>n\<close>
  for which \<open>n / 10 ^ f - x\<close> is closest to zero, the larger one at a tie. (From \<open>10 ^ 21\<close>
  on JavaScript prints the exponent notation instead; no quotient of counters below
  \<open>2 ^ 53\<close> is that large.)
\<close>

definition toFixed_nonneg :: "nat \<Rightarrow> rat \<Rightarrow> string" where
  "toFixed_nonneg f x = decimal f (nat \<lfloor>x * 10 ^ f + 1 / 2\<rfloor>)"

definition toFixed :: "nat \<Rightarrow> rat \<Rightarrow> string" where
  "toFixed f x = (if x < 0 then CHR ''-'' # toFixed_nonneg f (- x) else toFixed_nonneg f x)"

text \<open>\<open>Math.round\<close>: the nearest integer, a tie going up.\<close>

definition Math_round :: "rat \<Rightarrow> rat" where
  "Math_round x = of_int \<lfloor>x + 1 / 2\<rfloor>"

subsection \<open>Strings\<close>

text \<open>\<open>String.prototype.toLowerCase\<close> on the ASCII letters (strings are byte lists here).\<close>

definition lower_char :: "char \<Rightarrow> char" where
  "lower_char c =
     (let n = (of_char c :: nat) in if 65 \<le> n \<and> n \<le> 90 then char_of (n + 32) else c)"

definition toLowerCase :: "string \<Rightarrow> string" where
  "toLowerCase s = map lower_char s"

section \<open>Match records\<close>

text \<open>The part of an upstream match body that the service reads.\<close>

record player_stats =
  kills :: nat
  deaths :: nat
  assists :: nat
  score :: nat

record damage =
  headshots :: "nat option"
  bodyshots :: "nat option"
  legshots :: "nat option"

record player =
  puuid :: string
  team :: string
  character :: string
  stats :: player_stats
  damage_made :: "damage option"

record team_entry =
  has_won :: bool
  rounds_won :: nat
  rounds_lost :: nat

record metadata =
  matchid :: string
  mapname :: string
  mode :: string
  game_start :: int

text \<open>
  \<open>all_players\<close> is \<open>match.players.all_players\<close>; \<open>teams\<close> is the object \<open>match.teams\<close>, a
  map from the team's key (\<open>red\<close>, \<open>blue\<close>) to its entry, an absent key reading as
  undefined. Here and in the breakdown objects below, the keys are the object's own keys:
  names of properties that every JavaScript object inherits (\<open>constructor\<close>, \<open>toString\<close>)
  are not team, agent or map names.
\<close>

record match =
  metadata :: metadata
  all_players :: "player list"
  teams :: "string \<rightharpoonup> team_entry"

section \<open>Statistics\<close>

record agent_stats =
  agent_matches :: nat
  agent_wins :: nat
  agent_kills :: nat
  agent_deaths :: nat
  agent_assists :: nat
  agent_kd :: jsval
  agent_winRate :: jsval

record map_stats =
  map_matches :: nat
  map_wins :: nat
  map_kills :: nat
  map_deaths :: nat
  map_roundsWon :: nat
  map_roundsLost :: nat
  map_winRate :: jsval
  map_kd :: jsval
  map_roundWinRate :: jsval

text \<open>One entry of \<open>recentMatches\<close>; \<open>rm_date\<close> is the time value of the \<open>Date\<close>, in milliseconds.\<close>

record recent_match =
  rm_matchId :: string
  rm_map :: string
  rm_mode :: string
  rm_date :: int
  rm_kills :: nat
  rm_deaths :: nat
  rm_assists :: nat
  rm_score :: nat
  rm_agent :: string
  rm_won :: bool
  rm_roundsWon :: nat
  rm_roundsLost :: nat

record player_statistics =
  totalMatches :: nat
  wins :: nat
  losses :: nat
  draws :: nat
  totalKills :: nat
  totalDeaths :: nat
  totalAssists :: nat
  totalScore :: nat
  totalRounds :: nat
  roundsWon :: nat
  roundsLost :: nat
  headshotPercentage :: jsval
  totalHeadshots :: nat
  totalBodyshots :: nat
  totalLegshots :: nat
  agents :: "string \<rightharpoonup> agent_stats"
  weapons :: "string \<rightharpoonup> unit"
  maps :: "string \<rightharpoonup> map_stats"
  recentMatches :: "recent_match list"
  kd :: jsval
  winRate :: jsval
  averageKills :: jsval
  averageDeaths :: jsval
  averageAssists :: jsval
  averageScore :: jsval

subsection \<open>calculatePlayerStats: the initial object\<close>

definition initial_stats :: "match list \<Rightarrow> player_statistics" where
  "initial_stats matches =
     \<lparr> totalMatches = length matches, wins = 0, losses = 0, draws = 0,
       totalKills = 0, totalDeaths = 0, totalAssists = 0, totalScore = 0,
       totalRounds = 0, roundsWon = 0, roundsLost = 0,
       headshotPercentage = Num 0,
       totalHeadshots = 0, totalBodyshots = 0, totalLegshots = 0,
       agents = Map.empty, weapons = Map.empty, maps = Map.empty,
       recentMatches = [],
       kd = Undefined, winRate = Undefined, averageKills = Undefined,
       averageDeaths = Undefined, averageAssists = Undefined, averageScore = Undefined \<rparr>"

subsection \<open>calculatePlayerStats: the body of the loop over the matches\<close>

text \<open>\<open>x || 0\<close> on a counter that may be missing.\<close>

definition or0 :: "nat option \<Rightarrow> nat" where
  "or0 x = (case x of None \<Rightarrow> 0 | Some v \<Rightarrow> v)"

text \<open>Basic stats.\<close>

definition basic_stats :: "player \<Rightarrow> player_statistics \<Rightarrow> player_statistics" where
  "basic_stats p s =
     s\<lparr> totalKills := totalKills s + kills (stats p),
        totalDeaths := totalDeaths s + deaths (stats p),
        totalAssists := totalAssists s + assists (stats p),
        totalScore := totalScore s + score (stats p) \<rparr>"

text \<open>
  Rounds and the outcome. \<open>teams.red?.rounds_won === teams.blue?.rounds_won\<close> compares two
  values that are undefined when the team is absent, so two absent teams compare equal.
\<close>

definition rounds_equal :: "match \<Rightarrow> bool" where
  "rounds_equal m =
     (map_option rounds_won (teams m ''red'') = map_option rounds_won (teams m ''blue''))"

definition outcome_stats :: "match \<Rightarrow> team_entry \<Rightarrow> player_statistics \<Rightarrow> player_statistics" where
  "outcome_stats m t s =
     (if has_won t then s\<lparr> wins := wins s + 1 \<rparr>
      else if rounds_equal m then s\<lparr> draws := draws s + 1 \<rparr>
      else s\<lparr> losses := losses s + 1 \<rparr>)"

definition round_stats :: "match \<Rightarrow> team_entry option \<Rightarrow> player_statistics \<Rightarrow> player_statistics" where
  "round_stats m tm s =
     (case tm of
        None \<Rightarrow> s
      | Some t \<Rightarrow>
          outcome_stats m t
            (s\<lparr> roundsWon := roundsWon s + rounds_won t,
                roundsLost := roundsLost s + rounds_lost t,
                totalRounds := totalRounds s + (rounds_won t + rounds_lost t) \<rparr>))"

text \<open>Damage stats for the headshot percentage.\<close>

definition damage_stats :: "player \<Rightarrow> player_statistics \<Rightarrow> player_statistics" where
  "damage_stats p s =
     (case damage_made p of
        None \<Rightarrow> s
      | Some d \<Rightarrow>
          s\<lparr> totalHeadshots := totalHeadshots s + or0 (headshots d),
             totalBodyshots := totalBodyshots s + or0 (bodyshots d),
             totalLegshots := totalLegshots s + or0 (legshots d) \<rparr>)"

text \<open>Agent stats.\<close>

definition new_agent :: agent_stats where
  "new_agent =
     \<lparr> agent_matches = 0, agent_wins = 0, agent_kills = 0, agent_deaths = 0,
       agent_assists = 0, agent_kd = Num 0, agent_winRate = Num 0 \<rparr>"

definition team_won :: "team_entry option \<Rightarrow> bool" where
  "team_won tm = (case tm of None \<Rightarrow> False | Some t \<Rightarrow> has_won t)"

definition agent_update :: "player \<Rightarrow> team_entry option \<Rightarrow> player_statistics \<Rightarrow> player_statistics" where
  "agent_update p tm s =
     (let agentName = character p;
          a = (case agents s agentName of None \<Rightarrow> new_agent | Some a \<Rightarrow> a);
          a' = a\<lparr> agent_matches := agent_matches a + 1,
                  agent_kills := agent_kills a + kills (stats p),
                  agent_deaths := agent_deaths a + deaths (stats p),
                  agent_assists := agent_assists a + assists (stats p),
                  agent_wins := (if team_won tm then agent_wins a + 1 else agent_wins a) \<rparr>
      in s\<lparr> agents := (agents s)(agentName \<mapsto> a') \<rparr>)"

text \<open>Map stats.\<close>

definition new_map :: map_stats where
  "new_map =
     \<lparr> map_matches = 0, map_wins = 0, map_kills = 0, map_deaths = 0,
       map_roundsWon = 0, map_roundsLost = 0,
       map_winRate = Undefined, map_kd = Undefined, map_roundWinRate = Undefined \<rparr>"

definition map_update :: "match \<Rightarrow> player \<Rightarrow> team_entry option \<Rightarrow> player_statistics \<Rightarrow> player_statistics" where
  "map_update m p tm s =
     (let mapName = mapname (metadata m);
          e = (case maps s mapName of None \<Rightarrow> new_map | Some e \<Rightarrow> e);
          e1 = e\<lparr> map_matches := map_matches e + 1,
                  map_kills := map_kills e + kills (stats p),
                  map_deaths := map_deaths e + deaths (stats p) \<rparr>;
          e2 = (case tm of
                  None \<Rightarrow> e1
                | Some t \<Rightarrow>
                    e1\<lparr> map_roundsWon := map_roundsWon e1 + rounds_won t,
                        map_roundsLost := map_roundsLost e1 + rounds_lost t,
                        map_wins := (if has_won t then map_wins e1 + 1 else map_wins e1) \<rparr>)
      in s\<lparr> maps := (maps s)(mapName \<mapsto> e2) \<rparr>)"

text \<open>Recent match summary.\<close>

definition recent_push :: "match \<Rightarrow> player \<Rightarrow> team_entry option \<Rightarrow> player_statistics \<Rightarrow> player_statistics" where
  "recent_push m p tm s =
     s\<lparr> recentMatches := recentMatches s @
          [\<lparr> rm_matchId = matchid (metadata m),
             rm_map = mapname (metadata m),
             rm_mode = mode (metadata m),
             rm_date = game_start (metadata m) * 1000,
             rm_kills = kills (stats p),
             rm_deaths = deaths (stats p),
             rm_assists = assists (stats p),
             rm_score = score (stats p),
             rm_agent = character p,
             rm_won = team_won tm,
             rm_roundsWon = (case tm of None \<Rightarrow> 0 | Some t \<Rightarrow> rounds_won t),
             rm_roundsLost = (case tm of None \<Rightarrow> 0 | Some t \<Rightarrow> rounds_lost t) \<rparr>] \<rparr>"

text \<open>
  The callback of \<open>matches.forEach\<close>: a match in which no player has the subject's puuid is
  left out (\<open>if (!player) return\<close>); the subject's team is looked up under the lower-cased
  team name.
\<close>

definition find_player :: "string \<Rightarrow> match \<Rightarrow> player option" where
  "find_player pid m = find (\<lambda>p. puuid p = pid) (all_players m)"

definition player_team :: "match \<Rightarrow> player \<Rightarrow> team_entry option" where
  "player_team m p = teams m (toLowerCase (team p))"

definition forEach_match :: "string \<Rightarrow> player_statistics \<Rightarrow> match \<Rightarrow> player_statistics" where
  "forEach_match pid s m =
     (case find_player pid m of
        None \<Rightarrow> s
      | Some p \<Rightarrow>
          (let tm = player_team m p
           in recent_push m p tm
                (map_update m p tm
                  (agent_update p tm
                    (damage_stats p
                      (round_stats m tm
                        (basic_stats p s)))))))"

subsection \<open>calculatePlayerStats: the derived stats\<close>

text \<open>\<open>a / b\<close> and \<open>(a / b) * 100\<close> on two counters, each operation rounded.\<close>

definition ratio :: "nat \<Rightarrow> nat \<Rightarrow> rat" where
  "ratio a b = binary64 (of_nat a / of_nat b)"

definition percentage :: "nat \<Rightarrow> nat \<Rightarrow> rat" where
  "percentage a b = binary64 (ratio a b * 100)"

definition kd_of :: "nat \<Rightarrow> nat \<Rightarrow> jsval" where
  "kd_of k d = (if d > 0 then Str (toFixed 2 (ratio k d)) else Num (of_nat k))"

definition percent_of :: "nat \<Rightarrow> nat \<Rightarrow> jsval" where
  "percent_of a b = (if b > 0 then Str (toFixed 1 (percentage a b)) else Num 0)"

definition average_of :: "nat \<Rightarrow> nat \<Rightarrow> jsval" where
  "average_of a n = (if n > 0 then Str (toFixed 1 (ratio a n)) else Num 0)"

definition derive_agent :: "agent_stats \<Rightarrow> agent_stats" where
  "derive_agent a =
     a\<lparr> agent_kd := kd_of (agent_kills a) (agent_deaths a),
        agent_winRate := percent_of (agent_wins a) (agent_matches a) \<rparr>"

definition derive_map :: "map_stats \<Rightarrow> map_stats" where
  "derive_map e =
     e\<lparr> map_winRate := percent_of (map_wins e) (map_matches e),
        map_kd := kd_of (map_kills e) (map_deaths e),
        map_roundWinRate := percent_of (map_roundsWon e) (map_roundsWon e + map_roundsLost e) \<rparr>"

definition derived_stats :: "player_statistics \<Rightarrow> player_statistics" where
  "derived_stats s =
     s\<lparr> kd := kd_of (totalKills s) (totalDeaths s),
        winRate := percent_of (wins s) (totalMatches s),
        headshotPercentage :=
          percent_of (totalHeadshots s) (totalHeadshots s + totalBodyshots s + totalLegshots s),
        averageKills := average_of (totalKills s) (totalMatches s),
        averageDeaths := average_of (totalDeaths s) (totalMatches s),
        averageAssists := average_of (totalAssists s) (totalMatches s),
        averageScore :=
          (if totalMatches s > 0 then Num (Math_round (ratio (totalScore s) (totalMatches s)))
           else Num 0),
        agents := (\<lambda>k. map_option derive_agent (agents s k)),
        maps := (\<lambda>k. map_option derive_map (maps s k)) \<rparr>"

subsection \<open>calculatePlayerStats\<close>

definition fold_matches :: "string \<Rightarrow> match list \<Rightarrow> player_statistics" where
  "fold_matches pid matches = foldl (forEach_match pid) (initial_stats matches) matches"

definition calculatePlayerStats :: "match list \<Rightarrow> string \<Rightarrow> player_statistics" where
  "calculatePlayerStats matches pid = derived_stats (fold_matches pid matches)"

section \<open>The upstream client\<close>

subsection \<open>Bodies, errors and the world\<close>

record account =
  account_puuid :: string
  gameName :: string
  tagLine :: string

record matchlist_entry =
  matchId :: string

text \<open>A match list whose \<open>history\<close> property is missing has \<open>history = None\<close>.\<close>

record matchlist =
  history :: "matchlist_entry list option"

text \<open>
  The body of an upstream answer (\<open>response.data\<close>): an account, a match list, a match,
  or the JSON value \<open>null\<close>.
\<close>

datatype response = AccountDto account | MatchlistDto matchlist | MatchDto match | NullBody

text \<open>
  What a rejected promise carries: the error of the HTTP client (with the status of the
  answer, when there was one) or a \<open>TypeError\<close> raised by a property access on
  undefined or null.
\<close>

datatype error = AxiosError "nat option" | TypeError

text \<open>
  The upstream provider answers a URL with a body or fails. The credential header is the
  same on every request and is left out.
\<close>

type_synonym upstream = "string \<Rightarrow> error + response"

text \<open>
  The state outside the service object: the module's cache (each entry with its expiry
  time), the clock in seconds, and the URLs requested from upstream so far, oldest first.
  Writes to the console are not part of the state.
\<close>

record world =
  cache :: "string \<rightharpoonup> response \<times> nat"
  now :: nat
  requests :: "string list"

subsection \<open>The response cache\<close>

definition stdTTL :: nat where
  "stdTTL = 300"

text \<open>
  Modelled from the spec: the cache is an instance of the NodeCache library, which is not
  part of the sources. Section 4.1 gives its contract: \<open>set\<close> establishes an expiry at
  now + TTL, and a \<open>get\<close> after the expiry behaves as absent.
\<close>

definition cache_get :: "string \<Rightarrow> world \<Rightarrow> response option" where
  "cache_get k w =
     (case cache w k of
        None \<Rightarrow> None
      | Some (v, expiry) \<Rightarrow> if now w \<le> expiry then Some v else None)"

definition cache_set :: "string \<Rightarrow> response \<Rightarrow> world \<Rightarrow> world" where
  "cache_set k v w = w\<lparr> cache := (cache w)(k \<mapsto> (v, now w + stdTTL)) \<rparr>"

subsection \<open>makeRequest\<close>

definition truthy :: "response \<Rightarrow> bool" where
  "truthy v = (case v of NullBody \<Rightarrow> False | _ \<Rightarrow> True)"

text \<open>
  The first half of \<open>makeRequest\<close>, which runs before the function first suspends:
  \<open>if (cacheKey) { const cached = cache.get(cacheKey); if (cached) return cached; }\<close>.
  A null or empty key is falsy.
\<close>

definition cached_response :: "string option \<Rightarrow> world \<Rightarrow> response option" where
  "cached_response cacheKey w =
     (case cacheKey of
        None \<Rightarrow> None
      | Some k \<Rightarrow>
          if k = [] then None
          else (case cache_get k w of
                  None \<Rightarrow> None
                | Some v \<Rightarrow> if truthy v then Some v else None))"

text \<open>
  The second half: the request goes to upstream; a body is stored under the key and
  returned, an error is thrown again.
\<close>

definition fetch_and_store :: "upstream \<Rightarrow> string \<Rightarrow> string option \<Rightarrow> world \<Rightarrow> (error + response) \<times> world" where
  "fetch_and_store net url cacheKey w =
     (let w1 = w\<lparr> requests := requests w @ [url] \<rparr>
      in case net url of
           Inl e \<Rightarrow> (Inl e, w1)
         | Inr d \<Rightarrow>
             (Inr d,
              (case cacheKey of
                 None \<Rightarrow> w1
               | Some k \<Rightarrow> if k = [] then w1 else cache_set k d w1)))"

definition makeRequest :: "upstream \<Rightarrow> string \<Rightarrow> string option \<Rightarrow> world \<Rightarrow> (error + response) \<times> world" where
  "makeRequest net url cacheKey w =
     (case cached_response cacheKey w of
        Some v \<Rightarrow> (Inr v, w)
      | None \<Rightarrow> fetch_and_store net url cacheKey w)"

subsection \<open>URLs and cache keys\<close>

definition regions :: "string \<rightharpoonup> string" where
  "regions =
     [''europe'' \<mapsto> ''https://europe.api.riotgames.com'',
      ''americas'' \<mapsto> ''https://americas.api.riotgames.com'',
      ''asia'' \<mapsto> ''https://asia.api.riotgames.com'',
      ''ap'' \<mapsto> ''https://ap.api.riotgames.com'']"

text \<open>\<open>${this.regions[region]}\<close>: a region that is not in the table renders as undefined.\<close>

definition region_base :: "string \<Rightarrow> string" where
  "region_base region = (case regions region of None \<Rightarrow> ''undefined'' | Some b \<Rightarrow> b)"

text \<open>
  \<open>encodeURIComponent\<close> on bytes: letters, digits and \<open>- _ . ! ~ * ' ( )\<close> stay, every
  other byte becomes a percent sign and two upper-case hexadecimal digits.
\<close>

definition hex_digit :: "nat \<Rightarrow> char" where
  "hex_digit d = (if d < 10 then char_of (48 + d) else char_of (55 + d))"

definition unreserved :: "char \<Rightarrow> bool" where
  "unreserved c =
     (let n = (of_char c :: nat)
      in (65 \<le> n \<and> n \<le> 90) \<or> (97 \<le> n \<and> n \<le> 122) \<or> (48 \<le> n \<and> n \<le> 57)
         \<or> n \<in> set [45, 95, 46, 33, 126, 42, 39, 40, 41])"

definition encodeURIComponent :: "string \<Rightarrow> string" where
  "encodeURIComponent s =
     concat (map (\<lambda>c. if unreserved c then [c]
                       else [CHR ''%'', hex_digit (of_char c div 16), hex_digit (of_char c mod 16)]) s)"

definition getAccountByRiotId_url :: "string \<Rightarrow> string \<Rightarrow> string \<Rightarrow> string" where
  "getAccountByRiotId_url gname tag region =
     region_base region @ ''/riot/account/v1/accounts/by-riot-id/''
       @ encodeURIComponent gname @ ''/'' @ encodeURIComponent tag"

definition getAccountByRiotId_key :: "string \<Rightarrow> string \<Rightarrow> string" where
  "getAccountByRiotId_key gname tag = ''account:'' @ gname @ '':'' @ tag"

definition getMatchHistory_url :: "string \<Rightarrow> string \<Rightarrow> string" where
  "getMatchHistory_url pid region =
     region_base region @ ''/val/match/v1/matchlists/by-puuid/'' @ pid"

definition getMatchHistory_key :: "string \<Rightarrow> int \<Rightarrow> string" where
  "getMatchHistory_key pid count = ''matches:'' @ pid @ '':'' @ show_int count"

definition getMatchDetails_url :: "string \<Rightarrow> string \<Rightarrow> string" where
  "getMatchDetails_url mid region = region_base region @ ''/val/match/v1/matches/'' @ mid"

definition getMatchDetails_key :: "string \<Rightarrow> string" where
  "getMatchDetails_key mid = ''match:'' @ mid"

subsection \<open>The read operations\<close>

definition getAccountByRiotId :: "upstream \<Rightarrow> string \<Rightarrow> string \<Rightarrow> string \<Rightarrow> world \<Rightarrow> (error + response) \<times> world" where
  "getAccountByRiotId net gname tag region w =
     makeRequest net (getAccountByRiotId_url gname tag region) (Some (getAccountByRiotId_key gname tag)) w"

definition getMatchHistory :: "upstream \<Rightarrow> string \<Rightarrow> string \<Rightarrow> int \<Rightarrow> world \<Rightarrow> (error + response) \<times> world" where
  "getMatchHistory net pid region count w =
     makeRequest net (getMatchHistory_url pid region) (Some (getMatchHistory_key pid count)) w"

definition getMatchDetails :: "upstream \<Rightarrow> string \<Rightarrow> string \<Rightarrow> world \<Rightarrow> (error + response) \<times> world" where
  "getMatchDetails net mid region w =
     makeRequest net (getMatchDetails_url mid region) (Some (getMatchDetails_key mid)) w"

subsection \<open>The fan-out over the match ids\<close>

text \<open>
  \<open>ids.map(id => this.getMatchDetails(id, region))\<close> starts every call before any of them
  resumes: each call reads the cache as it is on entry, and a call that misses sends its
  request. The answers are then stored one by one. \<open>getMatchDetails_all\<close> gives the outcome
  of each call, in the order of the ids, and the world once every request has settled.
\<close>

fun settle_all :: "upstream \<Rightarrow> (string \<times> string \<times> response option) list \<Rightarrow> world \<Rightarrow> (error + response) list \<times> world" where
  "settle_all net [] w = ([], w)"
| "settle_all net ((url, k, hit) # rs) w =
     (case hit of
        Some v \<Rightarrow> (let (xs, w') = settle_all net rs w in (Inr v # xs, w'))
      | None \<Rightarrow>
          (let (x, w1) = fetch_and_store net url (Some k) w;
               (xs, w2) = settle_all net rs w1
           in (x # xs, w2)))"

definition getMatchDetails_all :: "upstream \<Rightarrow> string list \<Rightarrow> string \<Rightarrow> world \<Rightarrow> (error + response) list \<times> world" where
  "getMatchDetails_all net mids region w =
     settle_all net
       (map (\<lambda>mid. (getMatchDetails_url mid region, getMatchDetails_key mid,
                     cached_response (Some (getMatchDetails_key mid)) w)) mids) w"

text \<open>
  \<open>Promise.all\<close>: the values in order when every promise is fulfilled, and otherwise a
  rejection. JavaScript rejects with the reason of the promise that is rejected first in
  time; the model takes the first in the order of the list.
\<close>

fun Promise_all :: "(error + 'a) list \<Rightarrow> error + 'a list" where
  "Promise_all [] = Inr []"
| "Promise_all (Inl e # rs) = Inl e"
| "Promise_all (Inr v # rs) = (case Promise_all rs of Inl e \<Rightarrow> Inl e | Inr vs \<Rightarrow> Inr (v # vs))"

subsection \<open>getRecentMatchesWithDetails\<close>

text \<open>\<open>body.history\<close>, undefined on a body that has no such property.\<close>

definition history_of :: "response \<Rightarrow> matchlist_entry list option" where
  "history_of body = (case body of MatchlistDto ml \<Rightarrow> history ml | _ \<Rightarrow> None)"

text \<open>
  The \<open>catch\<close> block logs the error and throws it again. \<open>matchHistory.history.map\<close> raises
  a \<open>TypeError\<close> when the body has no history.
\<close>

definition getRecentMatchesWithDetails :: "upstream \<Rightarrow> string \<Rightarrow> string \<Rightarrow> int \<Rightarrow> world \<Rightarrow> (error + response list) \<times> world" where
  "getRecentMatchesWithDetails net pid region count w =
     (case getMatchHistory net pid region count w of
        (Inl e, w1) \<Rightarrow> (Inl e, w1)
      | (Inr matchHistory, w1) \<Rightarrow>
          (case history_of matchHistory of
             None \<Rightarrow> (Inl TypeError, w1)
           | Some hs \<Rightarrow>
               (let (rs, w2) = getMatchDetails_all net (map matchId hs) region w1
                in (Promise_all rs, w2))))"

section \<open>The profile\<close>

text \<open>The object literal that stands in for the statistics when there are no matches.\<close>

record fallback_statistics =
  fb_totalMatches :: nat
  fb_wins :: nat
  fb_losses :: nat
  fb_draws :: nat
  fb_totalKills :: nat
  fb_totalDeaths :: nat
  fb_totalAssists :: nat
  fb_kd :: jsval
  fb_winRate :: jsval
  fb_headshotPercentage :: jsval
  fb_agents :: "string \<rightharpoonup> agent_stats"
  fb_maps :: "string \<rightharpoonup> map_stats"
  fb_recentMatches :: "recent_match list"

definition fallback_stats :: fallback_statistics where
  "fallback_stats =
     \<lparr> fb_totalMatches = 0, fb_wins = 0, fb_losses = 0, fb_draws = 0,
       fb_totalKills = 0, fb_totalDeaths = 0, fb_totalAssists = 0,
       fb_kd = Num 0, fb_winRate = Num 0, fb_headshotPercentage = Num 0,
       fb_agents = Map.empty, fb_maps = Map.empty, fb_recentMatches = [] \<rparr>"

datatype statistics = Calculated player_statistics | Fallback fallback_statistics

text \<open>\<open>profile.statistics.totalMatches\<close>, as the route reads it.\<close>

definition statistics_totalMatches :: "statistics \<Rightarrow> nat" where
  "statistics_totalMatches st =
     (case st of Calculated s \<Rightarrow> totalMatches s | Fallback f \<Rightarrow> fb_totalMatches f)"

text \<open>
  The three properties copied from the account body; a property the body does not have
  is undefined (\<open>None\<close>).
\<close>

record profile_account =
  pa_puuid :: "string option"
  pa_gameName :: "string option"
  pa_tagLine :: "string option"

record profile =
  account :: profile_account
  rank :: jsval
  statistics :: statistics
  lastUpdated :: nat

definition account_prop :: "(account \<Rightarrow> string) \<Rightarrow> response \<Rightarrow> string option" where
  "account_prop f body = (case body of AccountDto a \<Rightarrow> Some (f a) | _ \<Rightarrow> None)"

text \<open>A value inside a template literal.\<close>

definition template :: "string option \<Rightarrow> string" where
  "template x = (case x of None \<Rightarrow> ''undefined'' | Some s \<Rightarrow> s)"

definition is_null :: "response \<Rightarrow> bool" where
  "is_null v = (case v of NullBody \<Rightarrow> True | _ \<Rightarrow> False)"

text \<open>\<open>.catch(e => null)\<close> on one detail request.\<close>

definition catch_null :: "error + response \<Rightarrow> response" where
  "catch_null r = (case r of Inl e \<Rightarrow> NullBody | Inr v \<Rightarrow> v)"

text \<open>
  The inner \<open>try\<close> block: the match list of the last 5 matches is requested, and when it has
  a non-empty history the details of its first 5 entries, a failed request giving null
  and the nulls being filtered out. Every error in the block is caught, and \<open>matches\<close>
  is then still the empty list.
\<close>

definition profile_matches :: "upstream \<Rightarrow> string \<Rightarrow> string \<Rightarrow> world \<Rightarrow> response list \<times> world" where
  "profile_matches net pid region w =
     (case getMatchHistory net pid region 5 w of
        (Inl e, w1) \<Rightarrow> ([], w1)
      | (Inr matchHistory, w1) \<Rightarrow>
          (case history_of matchHistory of
             None \<Rightarrow> ([], w1)
           | Some hs \<Rightarrow>
               if length hs > 0 then
                 (let matchIds = map matchId (take 5 hs);
                      (rs, w2) = getMatchDetails_all net matchIds region w1
                  in (filter (\<lambda>m. \<not> is_null m) (map catch_null rs), w2))
               else ([], w1)))"

text \<open>
  \<open>calculatePlayerStats\<close> reads \<open>match.players.all_players\<close> of every element, which raises
  a \<open>TypeError\<close> on a body that is not a match.
\<close>

fun match_records :: "response list \<Rightarrow> match list option" where
  "match_records [] = Some []"
| "match_records (MatchDto m # rs) = map_option ((#) m) (match_records rs)"
| "match_records (_ # rs) = None"

text \<open>
  The statistics of the matches for \<open>account.puuid\<close>. When that is undefined no player's
  puuid is equal to it, so every match is left out of the fold.
\<close>

definition profile_statistics :: "response list \<Rightarrow> string option \<Rightarrow> error + statistics" where
  "profile_statistics matches pid =
     (if length matches > 0 then
        (case match_records matches of
           None \<Rightarrow> Inl TypeError
         | Some ms \<Rightarrow>
             Inr (Calculated (case pid of
                                Some p \<Rightarrow> calculatePlayerStats ms p
                              | None \<Rightarrow> derived_stats (initial_stats ms))))
      else Inr (Fallback fallback_stats))"

text \<open>
  \<open>getPlayerProfile\<close>. An error of the account request leaves through the outer \<open>catch\<close>,
  which throws it again. With a null account body, \<open>account.puuid\<close> raises a \<open>TypeError\<close>
  inside the inner \<open>try\<close> (caught, before any request is sent) and again where the result
  is built (thrown to the caller). \<open>platformRegion\<close> is not used.
\<close>

definition getPlayerProfile :: "upstream \<Rightarrow> string \<Rightarrow> string \<Rightarrow> string \<Rightarrow> string \<Rightarrow> world \<Rightarrow> (error + profile) \<times> world" where
  "getPlayerProfile net gname tag region platformRegion w =
     (case getAccountByRiotId net gname tag region w of
        (Inl e, w1) \<Rightarrow> (Inl e, w1)
      | (Inr body, w1) \<Rightarrow>
          if is_null body then (Inl TypeError, w1)
          else
            (let pid = account_prop account_puuid body;
                 (matches, w2) = profile_matches net (template pid) region w1
             in case profile_statistics matches pid of
                  Inl e \<Rightarrow> (Inl e, w2)
                | Inr st \<Rightarrow>
                    (Inr \<lparr> account = \<lparr> pa_puuid = pid,
                                        pa_gameName = account_prop gameName body,
                                        pa_tagLine = account_prop tagLine body \<rparr>,
                           rank = Null,
                           statistics = st,
                           lastUpdated = now w2 \<rparr>, w2)))"

section \<open>Match bodies that lack properties\<close>

text \<open>
  \<open>calculatePlayerStats\<close> above is the function on match records that have every property
  it reads. A body that upstream delivers may lack some of them, and the function has no
  guard where it reads \<open>match.players.all_players\<close>, \<open>player.stats\<close>, \<open>player.team\<close>,
  \<open>match.teams\<close> and \<open>match.metadata\<close>: reading a property of undefined raises a
  \<open>TypeError\<close>. A raw match is a match object in which these properties may be missing;
  \<open>raw_all_players = None\<close> stands for a missing \<open>players\<close> or a missing \<open>all_players\<close>.
\<close>

record raw_player =
  raw_puuid :: string
  raw_team :: "string option"
  raw_character :: string
  raw_stats :: "player_stats option"
  raw_damage_made :: "damage option"

record raw_match =
  raw_metadata :: "metadata option"
  raw_all_players :: "raw_player list option"
  raw_teams :: "(string \<rightharpoonup> team_entry) option"

text \<open>
  The callback of \<open>matches.forEach\<close> on a raw match, in the order of the source: the
  players are searched (line 136); without the subject the callback returns; with the
  subject, \<open>player.stats\<close> (line 140), \<open>player.team\<close> (line 147), \<open>match.teams\<close> (line 148)
  and \<open>match.metadata\<close> (line 191) are read, and the steps are those of the function on
  complete records. An exception ends the whole call, so what was accumulated before it
  does not matter.
\<close>

definition forEach_raw_match :: "string \<Rightarrow> player_statistics \<Rightarrow> raw_match \<Rightarrow> error + player_statistics" where
  "forEach_raw_match pid s r =
     (case raw_all_players r of
        None \<Rightarrow> Inl TypeError
      | Some ps \<Rightarrow>
          (case find (\<lambda>p. raw_puuid p = pid) ps of
             None \<Rightarrow> Inr s
           | Some rp \<Rightarrow>
               (case raw_stats rp of
                  None \<Rightarrow> Inl TypeError
                | Some st \<Rightarrow>
                    (case raw_team rp of
                       None \<Rightarrow> Inl TypeError
                     | Some tn \<Rightarrow>
                         (case raw_teams r of
                            None \<Rightarrow> Inl TypeError
                          | Some ts \<Rightarrow>
                              (case raw_metadata r of
                                 None \<Rightarrow> Inl TypeError
                               | Some md \<Rightarrow>
                                   (let p = \<lparr> puuid = raw_puuid rp, team = tn,
                                              character = raw_character rp, stats = st,
                                              damage_made = raw_damage_made rp \<rparr>;
                                        m = \<lparr> metadata = md, all_players = [p], teams = ts \<rparr>;
                                        tm = player_team m p
                                    in Inr (recent_push m p tm
                                             (map_update m p tm
                                               (agent_update p tm
                                                 (damage_stats p
                                                   (round_stats m tm
                                                     (basic_stats p s)))))))))))))"

fun fold_raw_matches :: "string \<Rightarrow> player_statistics \<Rightarrow> raw_match list \<Rightarrow> error + player_statistics" where
  "fold_raw_matches pid s [] = Inr s"
| "fold_raw_matches pid s (r # rs) =
     (case forEach_raw_match pid s r of
        Inl e \<Rightarrow> Inl e
      | Inr s' \<Rightarrow> fold_raw_matches pid s' rs)"

definition calculatePlayerStats_raw :: "raw_match list \<Rightarrow> string \<Rightarrow> error + player_statistics" where
  "calculatePlayerStats_raw matches pid =
     (case fold_raw_matches pid ((initial_stats [])\<lparr> totalMatches := length matches \<rparr>) matches of
        Inl e \<Rightarrow> Inl e
      | Inr s \<Rightarrow> Inr (derived_stats s))"

text \<open>A complete match record as a raw match.\<close>

definition raw_of_player :: "player \<Rightarrow> raw_player" where
  "raw_of_player p =
     \<lparr> raw_puuid = puuid p, raw_team = Some (team p), raw_character = character p,
       raw_stats = Some (stats p), raw_damage_made = damage_made p \<rparr>"

definition raw_of_match :: "match \<Rightarrow> raw_match" where
  "raw_of_match m =
     \<lparr> raw_metadata = Some (metadata m),
       raw_all_players = Some (map raw_of_player (all_players m)),
       raw_teams = Some (teams m) \<rparr>"

section \<open>Notions used in the statements\<close>

text \<open>
  The team entry under which a match is classified: that of the subject, when the subject
  is among the players and the teams object has an entry under the subject's team name.
\<close>

definition subject_team :: "string \<Rightarrow> match \<Rightarrow> team_entry option" where
  "subject_team pid m = (case find_player pid m of None \<Rightarrow> None | Some p \<Rightarrow> player_team m p)"

definition classified :: "string \<Rightarrow> match \<Rightarrow> bool" where
  "classified pid m = (case subject_team pid m of None \<Rightarrow> False | Some t \<Rightarrow> True)"

text \<open>
  What one match adds to each of the three outcome counters, read off the match record:
  a win when the subject's team entry is flagged, otherwise a draw when the rounds won by
  the red and by the blue team are the same (an absent team has none), otherwise a loss.
\<close>

definition win_inc :: "string \<Rightarrow> match \<Rightarrow> nat" where
  "win_inc pid m =
     (case subject_team pid m of None \<Rightarrow> 0 | Some t \<Rightarrow> if has_won t then 1 else 0)"

definition draw_inc :: "string \<Rightarrow> match \<Rightarrow> nat" where
  "draw_inc pid m =
     (case subject_team pid m of
        None \<Rightarrow> 0
      | Some t \<Rightarrow>
          if has_won t then 0
          else if map_option rounds_won (teams m ''red'') = map_option rounds_won (teams m ''blue'')
          then 1 else 0)"

definition loss_inc :: "string \<Rightarrow> match \<Rightarrow> nat" where
  "loss_inc pid m =
     (case subject_team pid m of
        None \<Rightarrow> 0
      | Some t \<Rightarrow>
          if has_won t then 0
          else if map_option rounds_won (teams m ''red'') = map_option rounds_won (teams m ''blue'')
          then 0 else 1)"

text \<open>
  A raw match that the callback can read: it has the list of players and, when the subject
  is among them, the subject's stats and team name, the teams object and the metadata.
\<close>

definition present :: "'a option \<Rightarrow> bool" where
  "present x = (case x of None \<Rightarrow> False | Some v \<Rightarrow> True)"

definition readable :: "string \<Rightarrow> raw_match \<Rightarrow> bool" where
  "readable pid r =
     (case raw_all_players r of
        None \<Rightarrow> False
      | Some ps \<Rightarrow>
          (case find (\<lambda>p. raw_puuid p = pid) ps of
             None \<Rightarrow> True
           | Some rp \<Rightarrow>
               present (raw_stats rp) \<and> present (raw_team rp)
               \<and> present (raw_teams r) \<and> present (raw_metadata r)))"

text \<open>\<open>typeof v === 'number'\<close>.\<close>

definition is_number :: "jsval \<Rightarrow> bool" where
  "is_number v = (case v of Num q \<Rightarrow> True | _ \<Rightarrow> False)"

text \<open>
  The match-history request of the profile threw, or its body has no history or an empty
  one.
\<close>

definition no_history :: "error + response \<Rightarrow> bool" where
  "no_history r =
     (case r of
        Inl e \<Rightarrow> True
      | Inr body \<Rightarrow> (case history_of body of None \<Rightarrow> True | Some hs \<Rightarrow> hs = []))"

section \<open>Sample data\<close>

definition sample_player :: "string \<Rightarrow> string \<Rightarrow> nat \<Rightarrow> nat \<Rightarrow> player" where
  "sample_player pid tm k d =
     \<lparr> puuid = pid, team = tm, character = ''Jett'',
       stats = \<lparr> kills = k, deaths = d, assists = 3, score = 250 \<rparr>,
       damage_made = None \<rparr>"

definition sample_team :: "bool \<Rightarrow> nat \<Rightarrow> nat \<Rightarrow> team_entry" where
  "sample_team won rw rl = \<lparr> has_won = won, rounds_won = rw, rounds_lost = rl \<rparr>"

definition sample_match :: "player list \<Rightarrow> (string \<rightharpoonup> team_entry) \<Rightarrow> match" where
  "sample_match ps ts =
     \<lparr> metadata = \<lparr> matchid = ''m-1'', mapname = ''Ascent'', mode = ''Competitive'',
                    game_start = 1700000000 \<rparr>,
       all_players = ps, teams = ts \<rparr>"

text \<open>The subject's team is flagged as the winner although both teams won 12 rounds.\<close>

definition match_won_tied :: match where
  "match_won_tied =
     sample_match [sample_player ''p'' ''Red'' 20 10]
       [''red'' \<mapsto> sample_team True 12 12, ''blue'' \<mapsto> sample_team False 12 12]"

definition match_tied :: match where
  "match_tied =
     sample_match [sample_player ''p'' ''Red'' 7 0]
       [''red'' \<mapsto> sample_team False 12 12, ''blue'' \<mapsto> sample_team False 12 12]"

definition match_lost :: match where
  "match_lost =
     sample_match [sample_player ''p'' ''Red'' 4 9]
       [''red'' \<mapsto> sample_team False 5 13, ''blue'' \<mapsto> sample_team True 13 5]"

text \<open>As many kills as a counter can hold exactly, and three deaths.\<close>

definition match_many_kills :: match where
  "match_many_kills =
     sample_match [sample_player ''p'' ''Red'' 9007199254740991 3]
       [''red'' \<mapsto> sample_team True 13 5, ''blue'' \<mapsto> sample_team False 5 13]"

text \<open>The subject is not among the players.\<close>

definition match_without_subject :: match where
  "match_without_subject =
     sample_match [sample_player ''q'' ''Blue'' 11 12]
       [''red'' \<mapsto> sample_team False 5 13, ''blue'' \<mapsto> sample_team True 13 5]"

text \<open>A body with no \<open>players\<close> property, and one in which the subject has no \<open>stats\<close>.\<close>

definition raw_without_players :: raw_match where
  "raw_without_players =
     \<lparr> raw_metadata = Some (metadata match_lost), raw_all_players = None,
       raw_teams = Some (teams match_lost) \<rparr>"

definition raw_without_stats :: raw_match where
  "raw_without_stats =
     \<lparr> raw_metadata = Some (metadata match_lost),
       raw_all_players =
         Some [\<lparr> raw_puuid = ''p'', raw_team = Some ''Red'', raw_character = ''Jett'',
                 raw_stats = None, raw_damage_made = None \<rparr>],
       raw_teams = Some (teams match_lost) \<rparr>"

text \<open>A format whose teams are neither red nor blue.\<close>

definition match_green :: match where
  "match_green =
     sample_match [sample_player ''p'' ''Green'' 2 5]
       [''green'' \<mapsto> sample_team False 3 4]"

subsection \<open>A sample upstream\<close>

text \<open>
  An upstream that knows one account, a match list of three matches for its puuid in
  europe and of one match in asia, and the three matches. The match list fails when
  \<open>history_ok\<close> is false, and the matches in \<open>failing\<close> answer 404, as every other URL.
\<close>

definition sample_world :: world where
  "sample_world = \<lparr> cache = Map.empty, now = 0, requests = [] \<rparr>"

definition sample_history :: "string list \<Rightarrow> response" where
  "sample_history mids = MatchlistDto \<lparr> history = Some (map (\<lambda>i. \<lparr> matchId = i \<rparr>) mids) \<rparr>"

definition sample_account :: account where
  "sample_account = \<lparr> account_puuid = ''p'', gameName = ''Player'', tagLine = ''EUW'' \<rparr>"

definition not_found :: error where
  "not_found = AxiosError (Some 404)"

definition sample_upstream :: "bool \<Rightarrow> string list \<Rightarrow> upstream" where
  "sample_upstream history_ok failing url =
     (if url = getAccountByRiotId_url ''Player'' ''EUW'' ''europe'' then Inr (AccountDto sample_account)
      else if url = getMatchHistory_url ''p'' ''europe'' then
        (if history_ok then Inr (sample_history [''m1'', ''m2'', ''m3'']) else Inl (AxiosError (Some 503)))
      else if url = getMatchHistory_url ''p'' ''asia'' then Inr (sample_history [''m9''])
      else if url = getMatchDetails_url ''m1'' ''europe'' then
        (if ''m1'' \<in> set failing then Inl not_found else Inr (MatchDto match_won_tied))
      else if url = getMatchDetails_url ''m2'' ''europe'' then
        (if ''m2'' \<in> set failing then Inl not_found else Inr (MatchDto match_tied))
      else if url = getMatchDetails_url ''m3'' ''europe'' then
        (if ''m3'' \<in> set failing then Inl not_found else Inr (MatchDto match_lost))
      else Inl not_found)"

text \<open>
  The same upstream with every request answered, where the answer for the match \<open>m2\<close> is
  an object that has neither \<open>players\<close> nor \<open>history\<close>.
\<close>

definition sample_upstream_odd :: upstream where
  "sample_upstream_odd url =
     (if url = getMatchDetails_url ''m2'' ''europe'' then Inr (MatchlistDto \<lparr> history = None \<rparr>)
      else sample_upstream True [] url)"

definition body_ids :: "error + response \<Rightarrow> string list option" where
  "body_ids r = (case r of Inl e \<Rightarrow> None | Inr b \<Rightarrow> map_option (map matchId) (history_of b))"

section \<open>Properties of the aggregation\<close>

subsection \<open>Rounding to binary64\<close>

text \<open>
  The rounding on values whose binary64 neighbours are well known: one tenth, one third,
  1.005, a value that is representable, and two ties settled towards the even significand.
\<close>

lemma binary64_values:
  "binary64 (1 / 10) = 3602879701896397 / 2 ^ 55"
  "binary64 (1 / 3) = 6004799503160661 / 2 ^ 54"
  "binary64 (201 / 200) = 4526117625507348 / 2 ^ 52"
  "binary64 (3 / 4) = 3 / 4"
  "binary64 (2 ^ 53 + 1) = 2 ^ 53"
  "binary64 (2 ^ 53 + 3) = 2 ^ 53 + 4"
  by code_simp+

text \<open>
  The exponent is the right one, the rounding moves a value by at most half a unit in
  the last place, and so by at most the fraction \<open>2 ^ -53\<close> of the value.
\<close>

lemma pow2_powi: "pow2 e = 2 powi e"
  by (simp add: pow2_def power_int_def inverse_eq_divide power_one_over)

lemma pow2_pos: "0 < pow2 e"
  by (simp add: pow2_powi)

lemma pow2_add: "pow2 (a + b) = pow2 a * pow2 b"
  by (simp add: pow2_powi power_int_add)

lemma pow2_nat: "0 \<le> e \<Longrightarrow> pow2 e = 2 ^ nat e"
  by (simp add: pow2_def)

lemma pow2_diff: "pow2 (a - b) = pow2 a / pow2 b"
  by (simp add: pow2_powi power_int_diff)

lemma floor_log2_bounds:
  assumes "0 < x"
  shows "pow2 (floor_log2 x) \<le> x \<and> x < pow2 (floor_log2 x + 1)"
proof -
  obtain a b where q: "quotient_of x = (a, b)"
    by (cases "quotient_of x")
  then have b: "0 < b" and x: "x = of_int a / of_int b"
    by (simp_all add: quotient_of_denom_pos quotient_of_div)
  from assms b x have a: "0 < a"
    by (simp add: zero_less_divide_iff)
  let ?t = "bitlen a - bitlen b"
  from bitlen_bounds [OF a] have a1: "(2::int) ^ nat (bitlen a - 1) \<le> a" and a2: "a < 2 ^ nat (bitlen a)"
    by simp_all
  from bitlen_bounds [OF b] have b1: "(2::int) ^ nat (bitlen b - 1) \<le> b" and b2: "b < 2 ^ nat (bitlen b)"
    by simp_all
  from a have la: "1 \<le> bitlen a" by (simp add: bitlen_alt_def)
  from b have lb: "1 \<le> bitlen b" by (simp add: bitlen_alt_def)
  have A1: "pow2 (bitlen a - 1) \<le> of_int a"
  proof -
    from a1 have "(of_int ((2::int) ^ nat (bitlen a - 1)) :: rat) \<le> of_int a"
      by (simp only: of_int_le_iff)
    with la show ?thesis by (simp add: pow2_nat)
  qed
  have A2: "of_int a < pow2 (bitlen a)"
  proof -
    from a2 have "(of_int a :: rat) < of_int ((2::int) ^ nat (bitlen a))"
      by (simp only: of_int_less_iff)
    with la show ?thesis by (simp add: pow2_nat)
  qed
  have B1: "pow2 (bitlen b - 1) \<le> of_int b"
  proof -
    from b1 have "(of_int ((2::int) ^ nat (bitlen b - 1)) :: rat) \<le> of_int b"
      by (simp only: of_int_le_iff)
    with lb show ?thesis by (simp add: pow2_nat)
  qed
  have B2: "of_int b < pow2 (bitlen b)"
  proof -
    from b2 have "(of_int b :: rat) < of_int ((2::int) ^ nat (bitlen b))"
      by (simp only: of_int_less_iff)
    with lb show ?thesis by (simp add: pow2_nat)
  qed
  have bpos: "(0::rat) < of_int b" using b by simp
  have apos: "(0::rat) < of_int a" using a by simp
  have lower: "pow2 (?t - 1) < x"
  proof -
    have "pow2 (?t - 1) * of_int b < pow2 (?t - 1) * pow2 (bitlen b)"
      using B2 pow2_pos by (simp add: mult_less_cancel_left_pos)
    also have "\<dots> = pow2 (bitlen a - 1)"
      by (simp add: pow2_add [symmetric])
    also have "\<dots> \<le> of_int a" by (rule A1)
    finally show ?thesis
      using bpos by (simp add: x pos_less_divide_eq)
  qed
  have upper: "x < pow2 (?t + 1)"
  proof -
    have "of_int a < pow2 (bitlen a)" by (rule A2)
    also have "\<dots> = pow2 (?t + 1) * pow2 (bitlen b - 1)"
      by (simp add: pow2_add [symmetric])
    also have "\<dots> \<le> pow2 (?t + 1) * of_int b"
      using B1 pow2_pos by (simp add: mult_le_cancel_left_pos)
    finally show ?thesis
      using bpos by (simp add: x pos_divide_less_eq)
  qed
  show ?thesis
  proof (cases "pow2 ?t \<le> x")
    case True
    then have "floor_log2 x = ?t"
      by (simp add: floor_log2_def q)
    with True upper show ?thesis by simp
  next
    case False
    then have "floor_log2 x = ?t - 1"
      by (simp add: floor_log2_def q)
    with False lower show ?thesis by simp
  qed
qed

lemma round_half_even_near: "\<bar>of_int (round_half_even q) - q\<bar> \<le> 1 / 2"
proof -
  have "of_int \<lfloor>q\<rfloor> \<le> q" and "q < of_int \<lfloor>q\<rfloor> + 1"
    by linarith+
  then show ?thesis
    by (auto simp: round_half_even_def Let_def abs_le_iff)
qed

lemma binary64_error:
  assumes "0 < x"
  shows "\<bar>binary64 x - x\<bar> \<le> x / 2 ^ 53"
proof -
  let ?e = "floor_log2 x"
  let ?u = "pow2 (?e - 52)"
  have u: "0 < ?u" by (rule pow2_pos)
  from assms have b: "binary64 x = of_int (round_half_even (x / ?u)) * ?u"
    by (simp add: binary64_def Let_def)
  have "\<bar>binary64 x - x\<bar> = \<bar>of_int (round_half_even (x / ?u)) - x / ?u\<bar> * ?u"
  proof -
    have "binary64 x - x = (of_int (round_half_even (x / ?u)) - x / ?u) * ?u"
      using u by (simp add: b field_simps)
    then show ?thesis
      using u by (simp add: abs_mult)
  qed
  also have "\<dots> \<le> (1 / 2) * ?u"
    using round_half_even_near [of "x / ?u"] u by (simp add: mult_le_cancel_right)
  also have "\<dots> = pow2 ?e / 2 ^ 53"
  proof -
    have "pow2 (?e - 52) = pow2 ?e / pow2 52"
      by (rule pow2_diff)
    then show ?thesis
      by (simp add: pow2_nat)
  qed
  also have "\<dots> \<le> x / 2 ^ 53"
    using floor_log2_bounds [OF assms] by (simp add: divide_right_mono)
  finally show ?thesis .
qed

lemma binary64_nonneg:
  assumes "0 \<le> x"
  shows "0 \<le> binary64 x"
proof (cases "x = 0")
  case True
  then show ?thesis by (simp add: binary64_def)
next
  case False
  with assms have x: "0 < x" by simp
  have "\<bar>binary64 x - x\<bar> \<le> x / 2 ^ 53"
    using x by (rule binary64_error)
  moreover have "x / 2 ^ 53 \<le> x"
    using x by (simp add: divide_le_eq)
  ultimately show ?thesis by linarith
qed

text \<open>
  The digits that \<open>toFixed(2)\<close> prints for the rounded quotient of two counters are those
  of a nearest hundredth of the exact quotient, as long as 200 times the numerator is
  below \<open>2 ^ 53\<close>: the exact quotient then lies, when it is not a tie itself, further from
  every tie between two hundredths than the rounding to binary64 can move it.
\<close>

lemma ratio_nearest:
  assumes d: "0 < d" and k: "200 * k < (2::nat) ^ 53"
  shows "\<bar>of_int \<lfloor>ratio k d * 100 + 1 / 2\<rfloor> - 100 * (of_nat k / of_nat d)\<bar> \<le> (1 / 2 :: rat)"
proof (cases "k = 0")
  case True
  have "\<lfloor>(1 / 2 :: rat)\<rfloor> = 0"
    by (simp add: floor_eq_iff)
  with True show ?thesis
    by (simp add: ratio_def binary64_def)
next
  case False
  define K :: rat where "K = of_nat k"
  define D :: rat where "D = of_nat d"
  define q where "q = K / D"
  define x where "x = binary64 q"
  define n where "n = \<lfloor>x * 100 + 1 / 2\<rfloor>"
  from False have Kpos: "0 < K" by (simp add: K_def)
  from d have Dpos: "0 < D" by (simp add: D_def)
  from Kpos Dpos have qpos: "0 < q" by (simp add: q_def)
  have K53: "200 * K < 2 ^ 53"
  proof -
    from k have "(of_nat (200 * k) :: rat) < of_nat (2 ^ 53)"
      by (simp only: of_nat_less_iff)
    then show ?thesis by (simp add: K_def)
  qed
  have err: "\<bar>x - q\<bar> \<le> q / 2 ^ 53"
    unfolding x_def using qpos by (rule binary64_error)
  define c where "c = 200 * K / 2 ^ 53"
  have c1: "c < 1"
  proof -
    from K53 have "200 * K / 2 ^ 53 < 2 ^ 53 / (2 ^ 53 :: rat)"
      by (rule divide_strict_right_mono) simp
    then show ?thesis by (simp add: c_def)
  qed
  have small: "100 * \<bar>x - q\<bar> < 1 / (2 * D)"
  proof -
    have "100 * \<bar>x - q\<bar> \<le> 100 * (q / 2 ^ 53)"
      using err by simp
    also have "\<dots> = c / (2 * D)"
      by (simp add: q_def c_def)
    also have "\<dots> < 1 / (2 * D)"
      using c1 Dpos by (intro divide_strict_right_mono) simp_all
    finally show ?thesis .
  qed
  define X where "X = 100 * x"
  define Q where "Q = 100 * q"
  have XQ: "\<bar>X - Q\<bar> < 1 / (2 * D)"
  proof -
    have "\<bar>X - Q\<bar> = 100 * \<bar>x - q\<bar>"
      by (simp add: X_def Q_def abs_if)
    with small show ?thesis by simp
  qed
  have n1: "of_int n \<le> X + 1 / 2" and n2: "X + 1 / 2 < of_int n + 1"
    unfolding n_def X_def by linarith+
  have up: "Q \<le> of_int n + 1 / 2"
  proof (rule ccontr)
    assume "\<not> Q \<le> of_int n + 1 / 2"
    then have gt: "of_int n + 1 / 2 < Q" by simp
    define z :: int where "z = 200 * int k - (2 * n + 1) * int d"
    have z: "(of_int z :: rat) = 2 * D * (Q - (of_int n + 1 / 2))"
      using Dpos by (simp add: z_def Q_def q_def K_def D_def field_simps)
    from gt Dpos have "(0::rat) < of_int z"
      by (simp add: z)
    then have "1 \<le> z" by simp
    then have "(1::rat) \<le> of_int z" by simp
    then have "1 / (2 * D) \<le> Q - (of_int n + 1 / 2)"
      using Dpos by (simp add: z field_simps)
    with n2 XQ show False
      by linarith
  qed
  have low: "of_int n - 1 / 2 \<le> Q"
  proof (rule ccontr)
    assume "\<not> of_int n - 1 / 2 \<le> Q"
    then have lt: "Q < of_int n - 1 / 2" by simp
    define z :: int where "z = (2 * n - 1) * int d - 200 * int k"
    have z: "(of_int z :: rat) = 2 * D * ((of_int n - 1 / 2) - Q)"
      using Dpos by (simp add: z_def Q_def q_def K_def D_def field_simps)
    from lt Dpos have "(0::rat) < of_int z"
      by (simp add: z)
    then have "1 \<le> z" by simp
    then have "(1::rat) \<le> of_int z" by simp
    then have "1 / (2 * D) \<le> (of_int n - 1 / 2) - Q"
      using Dpos by (simp add: z field_simps)
    with n1 XQ show False
      by linarith
  qed
  from up low have "\<bar>of_int n - Q\<bar> \<le> 1 / 2"
    by linarith
  then show ?thesis
    by (simp add: n_def x_def q_def Q_def K_def D_def ratio_def mult.commute)
qed

lemma ratio_nonneg: "0 \<le> ratio k d"
  by (simp add: ratio_def binary64_nonneg)

lemma toFixed_ratio:
  "toFixed 2 (ratio k d) = decimal 2 (nat \<lfloor>ratio k d * 100 + 1 / 2\<rfloor>)"
  using ratio_nonneg [of k d] by (simp add: toFixed_def toFixed_nonneg_def)

lemma kd_nearest:
  assumes d: "0 < d" and k: "200 * k < (2::nat) ^ 53"
  shows "\<exists>n. kd_of k d = Str (decimal 2 n) \<and> \<bar>of_nat n / 100 - of_nat k / of_nat d\<bar> \<le> (1 / 200 :: rat)"
proof -
  define z where "z = \<lfloor>ratio k d * 100 + 1 / 2\<rfloor>"
  have "0 \<le> ratio k d * 100 + 1 / 2"
    using ratio_nonneg [of k d] by simp
  then have z0: "0 \<le> z"
    by (simp add: z_def)
  then have zn: "(of_nat (nat z) :: rat) = of_int z"
    by simp
  have "\<bar>of_int z - 100 * (of_nat k / of_nat d)\<bar> \<le> (1 / 2 :: rat)"
    unfolding z_def using d k by (rule ratio_nearest)
  then have "\<bar>of_nat (nat z) / 100 - of_nat k / of_nat d\<bar> \<le> (1 / 200 :: rat)"
    unfolding zn by linarith
  moreover from d have "kd_of k d = Str (decimal 2 (nat z))"
    by (simp add: kd_of_def toFixed_ratio z_def)
  ultimately show ?thesis by blast
qed

subsection \<open>Decimal digits\<close>

lemma show_nat_small: "n < 10 \<Longrightarrow> show_nat n = [digit_char n]"
  by (subst show_nat.simps) simp

lemma show_nat_large:
  "\<not> n < 10 \<Longrightarrow> show_nat n = show_nat (n div 10) @ [digit_char (n mod 10)]"
  by (subst show_nat.simps) simp

subsection \<open>The outcome counters\<close>

lemmas forEach_match_defs = forEach_match_def recent_push_def map_update_def agent_update_def
  damage_stats_def round_stats_def outcome_stats_def basic_stats_def Let_def

lemma forEach_match_wins:
  "wins (forEach_match pid s m) = wins s + win_inc pid m"
  by (simp add: forEach_match_defs win_inc_def subject_team_def split: option.splits)

lemma forEach_match_draws:
  "draws (forEach_match pid s m) = draws s + draw_inc pid m"
  by (simp add: forEach_match_defs rounds_equal_def draw_inc_def subject_team_def
      split: option.splits)

lemma forEach_match_losses:
  "losses (forEach_match pid s m) = losses s + loss_inc pid m"
  by (simp add: forEach_match_defs rounds_equal_def loss_inc_def subject_team_def
      split: option.splits)

lemma forEach_match_totalMatches:
  "totalMatches (forEach_match pid s m) = totalMatches s"
  by (simp add: forEach_match_defs split: option.splits)

text \<open>The loop: induction on the matches, for every value of the accumulator.\<close>

lemma foldl_wins:
  "wins (foldl (forEach_match pid) s ms) = wins s + sum_list (map (win_inc pid) ms)"
  by (induction ms arbitrary: s) (simp_all add: forEach_match_wins)

lemma foldl_draws:
  "draws (foldl (forEach_match pid) s ms) = draws s + sum_list (map (draw_inc pid) ms)"
  by (induction ms arbitrary: s) (simp_all add: forEach_match_draws)

lemma foldl_losses:
  "losses (foldl (forEach_match pid) s ms) = losses s + sum_list (map (loss_inc pid) ms)"
  by (induction ms arbitrary: s) (simp_all add: forEach_match_losses)

lemma foldl_totalMatches:
  "totalMatches (foldl (forEach_match pid) s ms) = totalMatches s"
  by (induction ms arbitrary: s) (simp_all add: forEach_match_totalMatches)

lemma calculatePlayerStats_wins:
  "wins (calculatePlayerStats ms pid) = sum_list (map (win_inc pid) ms)"
  by (simp add: calculatePlayerStats_def derived_stats_def fold_matches_def foldl_wins
      initial_stats_def)

lemma calculatePlayerStats_draws:
  "draws (calculatePlayerStats ms pid) = sum_list (map (draw_inc pid) ms)"
  by (simp add: calculatePlayerStats_def derived_stats_def fold_matches_def foldl_draws
      initial_stats_def)

lemma calculatePlayerStats_losses:
  "losses (calculatePlayerStats ms pid) = sum_list (map (loss_inc pid) ms)"
  by (simp add: calculatePlayerStats_def derived_stats_def fold_matches_def foldl_losses
      initial_stats_def)

lemma calculatePlayerStats_totalMatches:
  "totalMatches (calculatePlayerStats ms pid) = length ms"
  by (simp add: calculatePlayerStats_def derived_stats_def fold_matches_def foldl_totalMatches
      initial_stats_def)

lemma inc_sum:
  "win_inc pid m + loss_inc pid m + draw_inc pid m = (if classified pid m then 1 else 0)"
  by (simp add: win_inc_def loss_inc_def draw_inc_def classified_def split: option.splits)

lemma sum_incs:
  "sum_list (map (win_inc pid) ms) + sum_list (map (loss_inc pid) ms)
     + sum_list (map (draw_inc pid) ms) = length (filter (classified pid) ms)"
proof (induction ms)
  case Nil
  show ?case by simp
next
  case (Cons m ms)
  have "win_inc pid m + loss_inc pid m + draw_inc pid m = (if classified pid m then 1 else 0)"
    by (rule inc_sum)
  with Cons show ?case by (cases "classified pid m") simp_all
qed

lemma subject_team_eq:
  "find_player pid m = Some p \<Longrightarrow> player_team m p = Some t \<Longrightarrow> subject_team pid m = Some t"
  by (simp add: subject_team_def)

lemma sum_list_insert:
  "sum_list (map f (xs @ m # ys)) = sum_list (map f (xs @ ys)) + (f m :: nat)"
  by simp

lemma length_filter_all: "(length (filter P xs) = length xs) = list_all P xs"
proof (induction xs)
  case Nil
  show ?case by simp
next
  case (Cons x xs)
  have "length (filter P xs) \<le> length xs"
    by (rule length_filter_le)
  then have "length (filter P xs) \<noteq> Suc (length xs)"
    by arith
  with Cons show ?case by simp
qed

lemma empty_counters:
  "wins (calculatePlayerStats [] pid) = 0"
  "draws (calculatePlayerStats [] pid) = 0"
  "losses (calculatePlayerStats [] pid) = 0"
  by (simp_all add: calculatePlayerStats_wins calculatePlayerStats_draws
      calculatePlayerStats_losses)

text \<open>
  Claim C2, as amended. After the fold, \<open>wins + losses + draws\<close> is the number of matches
  of the sequence in which the subject is among the players and the teams object has an
  entry for the subject's team, while \<open>totalMatches\<close> is the length of the whole sequence.
  The sum is therefore at most \<open>totalMatches\<close>, and equal to it exactly when every match
  is of that kind.
\<close>

theorem outcome_counters_sum:
  "wins (calculatePlayerStats ms pid) + losses (calculatePlayerStats ms pid)
     + draws (calculatePlayerStats ms pid) = length (filter (classified pid) ms)
   \<and> totalMatches (calculatePlayerStats ms pid) = length ms
   \<and> wins (calculatePlayerStats ms pid) + losses (calculatePlayerStats ms pid)
     + draws (calculatePlayerStats ms pid) \<le> totalMatches (calculatePlayerStats ms pid)
   \<and> ((wins (calculatePlayerStats ms pid) + losses (calculatePlayerStats ms pid)
        + draws (calculatePlayerStats ms pid) = totalMatches (calculatePlayerStats ms pid))
       = list_all (classified pid) ms)"
proof -
  have sum: "wins (calculatePlayerStats ms pid) + losses (calculatePlayerStats ms pid)
      + draws (calculatePlayerStats ms pid) = length (filter (classified pid) ms)"
    by (simp add: calculatePlayerStats_wins calculatePlayerStats_losses
        calculatePlayerStats_draws sum_incs)
  have total: "totalMatches (calculatePlayerStats ms pid) = length ms"
    by (rule calculatePlayerStats_totalMatches)
  have all: "(length (filter (classified pid) ms) = length ms) = list_all (classified pid) ms"
    by (rule length_filter_all)
  show ?thesis
    unfolding sum total all by simp
qed

text \<open>
  Claim C2 as it is written fails on a sequence of one match in which the subject did not
  play: no counter moves, and \<open>totalMatches\<close> is 1.
\<close>

theorem outcome_counters_sum_counterexample:
  "wins (calculatePlayerStats [match_without_subject] ''p'')
     + losses (calculatePlayerStats [match_without_subject] ''p'')
     + draws (calculatePlayerStats [match_without_subject] ''p'')
   \<noteq> totalMatches (calculatePlayerStats [match_without_subject] ''p'')"
  by code_simp

subsection \<open>The kill/death ratio\<close>

text \<open>
  The rounding of the quotient shows in the last digit: 201 / 200 is just below 1.005 in
  binary64 and prints as 1.00, 1 / 200 is just above 0.005 and prints as 0.01, as
  JavaScript prints them.
\<close>

lemma decimal_values:
  "decimal 2 200 = ''2.00''"
  "decimal 2 5 = ''0.05''"
  "decimal 1 333 = ''33.3''"
  "decimal 0 7 = ''7''"
  by code_simp+

lemma kd_of_binary64:
  "kd_of 201 200 = Str ''1.00''"
  "kd_of 1 200 = Str ''0.01''"
  "kd_of 33 24 = Str ''1.38''"
  by code_simp+

lemma calculatePlayerStats_kd:
  "kd (calculatePlayerStats ms pid) =
     kd_of (totalKills (calculatePlayerStats ms pid)) (totalDeaths (calculatePlayerStats ms pid))"
  by (simp add: calculatePlayerStats_def derived_stats_def)

lemma single_match_totals:
  assumes "find_player pid m = Some p"
  shows "totalKills (calculatePlayerStats [m] pid) = kills (stats p)"
    and "totalDeaths (calculatePlayerStats [m] pid) = deaths (stats p)"
  using assms
  by (simp_all add: calculatePlayerStats_def derived_stats_def fold_matches_def initial_stats_def
      forEach_match_defs split: option.splits if_splits)

lemma many_kills_found:
  "find_player ''p'' match_many_kills = Some (sample_player ''p'' ''Red'' 9007199254740991 3)"
  by (simp add: find_player_def match_many_kills_def sample_match_def sample_player_def)

lemma many_kills_ratio: "ratio 9007199254740991 3 = 6004799503160661 / 2"
proof -
  have "binary64 (9007199254740991 / 3) = 6004799503160661 / 2"
    by code_simp
  then show ?thesis
    by (simp add: ratio_def)
qed

lemma many_kills_digits: "nat \<lfloor>ratio 9007199254740991 3 * 100 + 1 / 2\<rfloor> = 300239975158033050"
proof -
  have "\<lfloor>(6004799503160661 / 2 :: rat) * 100 + 1 / 2\<rfloor> = 300239975158033050"
    by code_simp
  then show ?thesis
    by (simp add: many_kills_ratio)
qed

text \<open>
  Claim C5, as amended. With deaths, \<open>kd\<close> is the string that \<open>toFixed(2)\<close> prints for the
  quotient of kills and deaths, not a number; for less than \<open>2 ^ 53 / 200\<close> kills it is the
  decimal notation, with two decimals, of a hundredth nearest to the quotient. Without
  deaths it is the number of kills, a number. 20 kills and 10 deaths give the string
  2.00; 7 kills and no deaths give the number 7.
\<close>

theorem kd_formula:
  "(0 < totalDeaths (calculatePlayerStats ms pid) \<longrightarrow>
      kd (calculatePlayerStats ms pid) =
        Str (toFixed 2 (ratio (totalKills (calculatePlayerStats ms pid))
                              (totalDeaths (calculatePlayerStats ms pid)))))
   \<and> (0 < totalDeaths (calculatePlayerStats ms pid)
        \<and> 200 * totalKills (calculatePlayerStats ms pid) < 2 ^ 53 \<longrightarrow>
      (\<exists>n. kd (calculatePlayerStats ms pid) = Str (decimal 2 n)
         \<and> \<bar>of_nat n / 100
              - of_nat (totalKills (calculatePlayerStats ms pid))
                / of_nat (totalDeaths (calculatePlayerStats ms pid))\<bar> \<le> (1 / 200 :: rat)))
   \<and> (totalDeaths (calculatePlayerStats ms pid) = 0 \<longrightarrow>
      kd (calculatePlayerStats ms pid) = Num (of_nat (totalKills (calculatePlayerStats ms pid))))
   \<and> (totalKills (calculatePlayerStats ms pid) = 20
        \<and> totalDeaths (calculatePlayerStats ms pid) = 10 \<longrightarrow>
      kd (calculatePlayerStats ms pid) = Str ''2.00'')
   \<and> (totalKills (calculatePlayerStats ms pid) = 7
        \<and> totalDeaths (calculatePlayerStats ms pid) = 0 \<longrightarrow>
      kd (calculatePlayerStats ms pid) = Num 7)"
proof -
  have twenty: "toFixed 2 (ratio 20 10) = ''2.00''"
    by code_simp
  have kd: "kd (calculatePlayerStats ms pid) =
      kd_of (totalKills (calculatePlayerStats ms pid)) (totalDeaths (calculatePlayerStats ms pid))"
    by (simp add: calculatePlayerStats_def derived_stats_def)
  have nearest: "0 < totalDeaths (calculatePlayerStats ms pid)
        \<and> 200 * totalKills (calculatePlayerStats ms pid) < 2 ^ 53 \<longrightarrow>
      (\<exists>n. kd (calculatePlayerStats ms pid) = Str (decimal 2 n)
         \<and> \<bar>of_nat n / 100
              - of_nat (totalKills (calculatePlayerStats ms pid))
                / of_nat (totalDeaths (calculatePlayerStats ms pid))\<bar> \<le> (1 / 200 :: rat))"
    unfolding kd by (intro impI kd_nearest) simp_all
  from kd have rest: "(0 < totalDeaths (calculatePlayerStats ms pid) \<longrightarrow>
      kd (calculatePlayerStats ms pid) =
        Str (toFixed 2 (ratio (totalKills (calculatePlayerStats ms pid))
                              (totalDeaths (calculatePlayerStats ms pid)))))
   \<and> (totalDeaths (calculatePlayerStats ms pid) = 0 \<longrightarrow>
      kd (calculatePlayerStats ms pid) = Num (of_nat (totalKills (calculatePlayerStats ms pid))))
   \<and> (totalKills (calculatePlayerStats ms pid) = 20
        \<and> totalDeaths (calculatePlayerStats ms pid) = 10 \<longrightarrow>
      kd (calculatePlayerStats ms pid) = Str ''2.00'')
   \<and> (totalKills (calculatePlayerStats ms pid) = 7
        \<and> totalDeaths (calculatePlayerStats ms pid) = 0 \<longrightarrow>
      kd (calculatePlayerStats ms pid) = Num 7)"
    by (simp add: kd_of_def twenty)
  from rest nearest show ?thesis
    by blast
qed

theorem kd_formula_witness:
  "totalKills (calculatePlayerStats [match_won_tied] ''p'') = 20
   \<and> totalDeaths (calculatePlayerStats [match_won_tied] ''p'') = 10
   \<and> 0 < totalDeaths (calculatePlayerStats [match_won_tied] ''p'')
   \<and> kd (calculatePlayerStats [match_won_tied] ''p'')
       = Str (toFixed 2 (ratio (totalKills (calculatePlayerStats [match_won_tied] ''p''))
                               (totalDeaths (calculatePlayerStats [match_won_tied] ''p''))))
   \<and> kd (calculatePlayerStats [match_won_tied] ''p'') = Str ''2.00''
   \<and> 200 * totalKills (calculatePlayerStats [match_won_tied] ''p'') < 2 ^ 53
   \<and> (\<exists>n. kd (calculatePlayerStats [match_won_tied] ''p'') = Str (decimal 2 n)
         \<and> \<bar>of_nat n / 100
              - of_nat (totalKills (calculatePlayerStats [match_won_tied] ''p''))
                / of_nat (totalDeaths (calculatePlayerStats [match_won_tied] ''p''))\<bar>
            \<le> (1 / 200 :: rat))
   \<and> totalKills (calculatePlayerStats [match_tied] ''p'') = 7
   \<and> totalDeaths (calculatePlayerStats [match_tied] ''p'') = 0
   \<and> kd (calculatePlayerStats [match_tied] ''p'') = Num 7"
proof -
  have k1: "totalKills (calculatePlayerStats [match_won_tied] ''p'') = 20"
    and d1: "totalDeaths (calculatePlayerStats [match_won_tied] ''p'') = 10"
    and k2: "totalKills (calculatePlayerStats [match_tied] ''p'') = 7"
    and d2: "totalDeaths (calculatePlayerStats [match_tied] ''p'') = 0"
    by code_simp+
  from d1 have p1: "0 < totalDeaths (calculatePlayerStats [match_won_tied] ''p'')"
    by simp
  from kd_formula [of "[match_won_tied]" "''p''"] k1 d1
  have r1: "kd (calculatePlayerStats [match_won_tied] ''p'') = Str ''2.00''"
    by blast
  from kd_formula [of "[match_won_tied]" "''p''"] p1
  have q1: "kd (calculatePlayerStats [match_won_tied] ''p'')
       = Str (toFixed 2 (ratio (totalKills (calculatePlayerStats [match_won_tied] ''p''))
                               (totalDeaths (calculatePlayerStats [match_won_tied] ''p''))))"
    by blast
  from k1 have s1: "200 * totalKills (calculatePlayerStats [match_won_tied] ''p'') < 2 ^ 53"
    by simp
  from kd_formula [of "[match_won_tied]" "''p''"] p1 s1
  have n1: "\<exists>n. kd (calculatePlayerStats [match_won_tied] ''p'') = Str (decimal 2 n)
         \<and> \<bar>of_nat n / 100
              - of_nat (totalKills (calculatePlayerStats [match_won_tied] ''p''))
                / of_nat (totalDeaths (calculatePlayerStats [match_won_tied] ''p''))\<bar>
            \<le> (1 / 200 :: rat)"
    by blast
  from kd_formula [of "[match_tied]" "''p''"] k2 d2
  have r2: "kd (calculatePlayerStats [match_tied] ''p'') = Num 7"
    by blast
  from k1 d1 p1 q1 r1 s1 n1 k2 d2 r2 show ?thesis by blast
qed

text \<open>
  Claim C5 as it is written fails on the type of the value: with 20 kills and 10 deaths
  \<open>kd\<close> is the string 2.00 and no number. And with \<open>2 ^ 53 - 1\<close> kills and 3 deaths the
  quotient, 3002399751580330.33..., is rounded to the binary64 value 3002399751580330.5
  before it is printed, so that the printed hundredth is further than 0.005 from the
  quotient.
\<close>

theorem kd_formula_counterexample:
  "totalKills (calculatePlayerStats [match_won_tied] ''p'') = 20
   \<and> totalDeaths (calculatePlayerStats [match_won_tied] ''p'') = 10
   \<and> kd (calculatePlayerStats [match_won_tied] ''p'') = Str ''2.00''
   \<and> \<not> is_number (kd (calculatePlayerStats [match_won_tied] ''p''))
   \<and> totalKills (calculatePlayerStats [match_many_kills] ''p'') = 9007199254740991
   \<and> totalDeaths (calculatePlayerStats [match_many_kills] ''p'') = 3
   \<and> kd (calculatePlayerStats [match_many_kills] ''p'') = Str (decimal 2 300239975158033050)
   \<and> \<not> \<bar>300239975158033050 / 100 - 9007199254740991 / 3\<bar> \<le> (1 / 200 :: rat)"
proof -
  have k1: "totalKills (calculatePlayerStats [match_won_tied] ''p'') = 20"
    and d1: "totalDeaths (calculatePlayerStats [match_won_tied] ''p'') = 10"
    and s1: "kd (calculatePlayerStats [match_won_tied] ''p'') = Str ''2.00''"
    by code_simp+
  from s1 have n1: "\<not> is_number (kd (calculatePlayerStats [match_won_tied] ''p''))"
    by (simp add: is_number_def)
  have k2: "totalKills (calculatePlayerStats [match_many_kills] ''p'') = 9007199254740991"
    and d2: "totalDeaths (calculatePlayerStats [match_many_kills] ''p'') = 3"
    by (simp_all add: single_match_totals [OF many_kills_found] sample_player_def)
  have s2: "kd (calculatePlayerStats [match_many_kills] ''p'') = Str (decimal 2 300239975158033050)"
    by (simp add: calculatePlayerStats_kd k2 d2 kd_of_def toFixed_ratio many_kills_digits)
  have far: "\<not> \<bar>300239975158033050 / 100 - 9007199254740991 / 3\<bar> \<le> (1 / 200 :: rat)"
    by simp
  from k1 d1 s1 n1 k2 d2 s2 far show ?thesis
    by blast
qed

subsection \<open>The classification of a match\<close>



text \<open>
  Claim C10. A match in which the subject plays, whose team entry exists and is not
  flagged \<open>has_won\<close>, and whose teams object has neither a red nor a blue entry, adds one
  draw and no loss: the two missing round counts compare equal.
\<close>

theorem absent_teams_draw:
  assumes "find_player pid m = Some p" and "player_team m p = Some t"
    and "\<not> has_won t" and "teams m ''red'' = None" and "teams m ''blue'' = None"
  shows "draws (calculatePlayerStats (xs @ m # ys) pid) =
           draws (calculatePlayerStats (xs @ ys) pid) + 1
     \<and> losses (calculatePlayerStats (xs @ m # ys) pid) =
           losses (calculatePlayerStats (xs @ ys) pid)
     \<and> wins (calculatePlayerStats (xs @ m # ys) pid) =
           wins (calculatePlayerStats (xs @ ys) pid)"
proof -
  from assms(1,2) have st: "subject_team pid m = Some t"
    by (rule subject_team_eq)
  have "win_inc pid m = 0" "draw_inc pid m = 1" "loss_inc pid m = 0"
    using assms(3,4,5) by (simp_all add: win_inc_def draw_inc_def loss_inc_def st)
  then show ?thesis
    unfolding calculatePlayerStats_wins calculatePlayerStats_draws calculatePlayerStats_losses
      sum_list_insert
    by simp
qed

theorem absent_teams_draw_witness:
  "find_player ''p'' match_green = Some (sample_player ''p'' ''Green'' 2 5)
   \<and> player_team match_green (sample_player ''p'' ''Green'' 2 5) = Some (sample_team False 3 4)
   \<and> \<not> has_won (sample_team False 3 4)
   \<and> teams match_green ''red'' = None \<and> teams match_green ''blue'' = None
   \<and> draws (calculatePlayerStats [match_green] ''p'') = 1
   \<and> losses (calculatePlayerStats [match_green] ''p'') = 0
   \<and> wins (calculatePlayerStats [match_green] ''p'') = 0"
proof -
  have f: "find_player ''p'' match_green = Some (sample_player ''p'' ''Green'' 2 5)"
    by code_simp
  have t: "player_team match_green (sample_player ''p'' ''Green'' 2 5)
      = Some (sample_team False 3 4)"
    by code_simp
  have h: "\<not> has_won (sample_team False 3 4)"
    by (simp add: sample_team_def)
  have r: "teams match_green ''red'' = None" and b: "teams match_green ''blue'' = None"
    by (simp_all add: match_green_def sample_match_def)
  from absent_teams_draw [OF f t h r b, of "[]" "[]"] empty_counters [of "''p''"]
  have "draws (calculatePlayerStats [match_green] ''p'') = 1
     \<and> losses (calculatePlayerStats [match_green] ''p'') = 0
     \<and> wins (calculatePlayerStats [match_green] ''p'') = 0"
    by simp
  with f t h r b show ?thesis by blast
qed

subsection \<open>The empty sequence\<close>

lemma calculatePlayerStats_empty:
  "calculatePlayerStats [] pid =
     \<lparr> totalMatches = 0, wins = 0, losses = 0, draws = 0,
       totalKills = 0, totalDeaths = 0, totalAssists = 0, totalScore = 0,
       totalRounds = 0, roundsWon = 0, roundsLost = 0,
       headshotPercentage = Num 0,
       totalHeadshots = 0, totalBodyshots = 0, totalLegshots = 0,
       agents = Map.empty, weapons = Map.empty, maps = Map.empty,
       recentMatches = [],
       kd = Num 0, winRate = Num 0, averageKills = Num 0,
       averageDeaths = Num 0, averageAssists = Num 0, averageScore = Num 0 \<rparr>"
  by (simp add: calculatePlayerStats_def derived_stats_def fold_matches_def initial_stats_def
      kd_of_def percent_of_def average_of_def)

subsection \<open>Match bodies that lack properties\<close>

text \<open>
  On complete match records the function on raw matches is \<open>calculatePlayerStats\<close>, so
  every statement above holds of it there.
\<close>

lemma find_raw_of_player:
  "find (\<lambda>p. raw_puuid p = pid) (map raw_of_player ps)
     = map_option raw_of_player (find (\<lambda>p. puuid p = pid) ps)"
  by (induction ps) (simp_all add: raw_of_player_def)

lemma player_rebuild:
  "\<lparr> puuid = puuid p, team = team p, character = character p, stats = stats p,
     damage_made = damage_made p \<rparr> = p"
  by (cases p) simp

lemma steps_of_same_match:
  assumes "metadata m' = metadata m" and "teams m' = teams m"
  shows "player_team m' p = player_team m p"
    and "round_stats m' tm s = round_stats m tm s"
    and "map_update m' p tm s = map_update m p tm s"
    and "recent_push m' p tm s = recent_push m p tm s"
proof -
  from assms(2) have eq: "rounds_equal m' = rounds_equal m"
    by (simp add: rounds_equal_def)
  then have "outcome_stats m' t x = outcome_stats m t x" for t x
    by (simp add: outcome_stats_def)
  then show "round_stats m' tm s = round_stats m tm s"
    by (cases tm) (simp_all add: round_stats_def)
  from assms show "player_team m' p = player_team m p"
    and "map_update m' p tm s = map_update m p tm s"
    and "recent_push m' p tm s = recent_push m p tm s"
    by (simp_all add: player_team_def map_update_def recent_push_def)
qed

lemma forEach_raw_of_match:
  "forEach_raw_match pid s (raw_of_match m) = Inr (forEach_match pid s m)"
proof (cases "find_player pid m")
  case None
  then show ?thesis
    by (simp add: forEach_raw_match_def raw_of_match_def find_raw_of_player forEach_match_def
        find_player_def)
next
  case (Some p)
  let ?m = "\<lparr> metadata = metadata m, all_players = [p], teams = teams m \<rparr>"
  have same: "metadata ?m = metadata m" "teams ?m = teams m"
    by simp_all
  from Some show ?thesis
    by (simp add: forEach_raw_match_def raw_of_match_def find_raw_of_player forEach_match_def
        find_player_def raw_of_player_def player_rebuild Let_def
        steps_of_same_match [OF same])
qed

lemma fold_raw_of_match:
  "fold_raw_matches pid s (map raw_of_match ms) = Inr (foldl (forEach_match pid) s ms)"
  by (induction ms arbitrary: s) (simp_all add: forEach_raw_of_match)

lemma initial_stats_length:
  "(initial_stats [])\<lparr> totalMatches := length ms \<rparr> = initial_stats ms"
  by (simp add: initial_stats_def)

lemma calculatePlayerStats_raw_of_match:
  "calculatePlayerStats_raw (map raw_of_match ms) pid = Inr (calculatePlayerStats ms pid)"
  using initial_stats_length [of ms]
  by (simp add: calculatePlayerStats_raw_def fold_raw_of_match calculatePlayerStats_def
      fold_matches_def)

lemma forEach_raw_match_isl:
  "isl (forEach_raw_match pid s r) = (\<not> readable pid r)"
  by (auto simp: forEach_raw_match_def readable_def present_def Let_def split: option.splits)

lemma forEach_raw_match_error:
  "forEach_raw_match pid s r = Inl e \<Longrightarrow> e = TypeError"
  by (simp add: forEach_raw_match_def Let_def split: option.splits)

lemma fold_raw_matches_isl:
  "isl (fold_raw_matches pid s rs) = (\<not> list_all (readable pid) rs)"
proof (induction rs arbitrary: s)
  case Nil
  show ?case by simp
next
  case (Cons r rs)
  show ?case
  proof (cases "forEach_raw_match pid s r")
    case (Inl e)
    with forEach_raw_match_isl [of pid s r] show ?thesis
      by simp
  next
    case (Inr s')
    with forEach_raw_match_isl [of pid s r] Cons [of s'] show ?thesis
      by simp
  qed
qed

lemma fold_raw_matches_error:
  "fold_raw_matches pid s rs = Inl e \<Longrightarrow> e = TypeError"
  by (induction rs arbitrary: s) (auto split: sum.splits dest: forEach_raw_match_error)

lemma calculatePlayerStats_raw_isl:
  "isl (calculatePlayerStats_raw rs pid) = (\<not> list_all (readable pid) rs)"
proof (cases "fold_raw_matches pid ((initial_stats [])\<lparr> totalMatches := length rs \<rparr>) rs")
  case (Inl e)
  with fold_raw_matches_isl [of pid "(initial_stats [])\<lparr> totalMatches := length rs \<rparr>" rs]
  show ?thesis
    by (simp add: calculatePlayerStats_raw_def)
next
  case (Inr s)
  with fold_raw_matches_isl [of pid "(initial_stats [])\<lparr> totalMatches := length rs \<rparr>" rs]
  show ?thesis
    by (simp add: calculatePlayerStats_raw_def)
qed

lemma calculatePlayerStats_raw_error:
  "calculatePlayerStats_raw rs pid = Inl e \<Longrightarrow> e = TypeError"
  by (auto simp: calculatePlayerStats_raw_def split: sum.splits dest: fold_raw_matches_error)

lemma raw_without_players_raises:
  "calculatePlayerStats_raw [raw_without_players] pid = Inl TypeError"
  by (simp add: calculatePlayerStats_raw_def forEach_raw_match_def raw_without_players_def)

lemma raw_without_stats_raises:
  "calculatePlayerStats_raw [raw_of_match match_won_tied, raw_without_stats] ''p'' = Inl TypeError"
proof -
  have "isl (calculatePlayerStats_raw [raw_of_match match_won_tied, raw_without_stats] ''p'')"
    by (simp add: calculatePlayerStats_raw_isl readable_def raw_without_stats_def present_def)
  then obtain e where e: "calculatePlayerStats_raw [raw_of_match match_won_tied, raw_without_stats] ''p'' = Inl e"
    by (cases "calculatePlayerStats_raw [raw_of_match match_won_tied, raw_without_stats] ''p''") simp_all
  with calculatePlayerStats_raw_error [OF e] show ?thesis by simp
qed

lemma readable_raw_of_match:
  "readable pid (raw_of_match m)"
  by (simp add: readable_def raw_of_match_def find_raw_of_player raw_of_player_def present_def
      split: option.splits)

text \<open>
  Claim C7, as amended. On the empty sequence \<open>calculatePlayerStats\<close> yields the snapshot
  in which every counter and every derived field is the number 0 and every breakdown map
  is empty. It returns a snapshot on every sequence of matches that it can read: each
  match has the list of players and, when the subject is among them, the subject's stats
  and team name, the teams object and the metadata; complete match records are of this
  kind. On every other sequence it raises a \<open>TypeError\<close>.
\<close>

theorem snapshot_of_readable:
  "calculatePlayerStats [] pid =
     \<lparr> totalMatches = 0, wins = 0, losses = 0, draws = 0,
       totalKills = 0, totalDeaths = 0, totalAssists = 0, totalScore = 0,
       totalRounds = 0, roundsWon = 0, roundsLost = 0,
       headshotPercentage = Num 0,
       totalHeadshots = 0, totalBodyshots = 0, totalLegshots = 0,
       agents = Map.empty, weapons = Map.empty, maps = Map.empty,
       recentMatches = [],
       kd = Num 0, winRate = Num 0, averageKills = Num 0,
       averageDeaths = Num 0, averageAssists = Num 0, averageScore = Num 0 \<rparr>
   \<and> calculatePlayerStats_raw [] pid = Inr (calculatePlayerStats [] pid)
   \<and> (list_all (readable pid) rs \<longrightarrow> (\<exists>s. calculatePlayerStats_raw rs pid = Inr s))
   \<and> (\<not> list_all (readable pid) rs \<longrightarrow> calculatePlayerStats_raw rs pid = Inl TypeError)
   \<and> list_all (readable pid) (map raw_of_match ms)
   \<and> calculatePlayerStats_raw (map raw_of_match ms) pid = Inr (calculatePlayerStats ms pid)"
proof (intro conjI impI)
  show "calculatePlayerStats [] pid =
     \<lparr> totalMatches = 0, wins = 0, losses = 0, draws = 0,
       totalKills = 0, totalDeaths = 0, totalAssists = 0, totalScore = 0,
       totalRounds = 0, roundsWon = 0, roundsLost = 0,
       headshotPercentage = Num 0,
       totalHeadshots = 0, totalBodyshots = 0, totalLegshots = 0,
       agents = Map.empty, weapons = Map.empty, maps = Map.empty,
       recentMatches = [],
       kd = Num 0, winRate = Num 0, averageKills = Num 0,
       averageDeaths = Num 0, averageAssists = Num 0, averageScore = Num 0 \<rparr>"
    by (rule calculatePlayerStats_empty)
next
  show "calculatePlayerStats_raw [] pid = Inr (calculatePlayerStats [] pid)"
    using calculatePlayerStats_raw_of_match [of "[]" pid] by simp
next
  assume "list_all (readable pid) rs"
  then have "\<not> isl (calculatePlayerStats_raw rs pid)"
    by (simp add: calculatePlayerStats_raw_isl)
  then show "\<exists>s. calculatePlayerStats_raw rs pid = Inr s"
    by (cases "calculatePlayerStats_raw rs pid") simp_all
next
  assume "\<not> list_all (readable pid) rs"
  then have "isl (calculatePlayerStats_raw rs pid)"
    by (simp add: calculatePlayerStats_raw_isl)
  then obtain e where e: "calculatePlayerStats_raw rs pid = Inl e"
    by (cases "calculatePlayerStats_raw rs pid") simp_all
  with calculatePlayerStats_raw_error [OF e] show "calculatePlayerStats_raw rs pid = Inl TypeError"
    by simp
next
  show "list_all (readable pid) (map raw_of_match ms)"
    by (simp add: list_all_iff readable_raw_of_match)
next
  show "calculatePlayerStats_raw (map raw_of_match ms) pid = Inr (calculatePlayerStats ms pid)"
    by (rule calculatePlayerStats_raw_of_match)
qed

theorem snapshot_of_readable_witness:
  "list_all (readable ''p'') [raw_of_match match_won_tied, raw_of_match match_lost]
   \<and> (\<exists>s. calculatePlayerStats_raw [raw_of_match match_won_tied, raw_of_match match_lost] ''p'' = Inr s)
   \<and> \<not> list_all (readable ''p'') [raw_of_match match_won_tied, raw_without_stats]
   \<and> calculatePlayerStats_raw [raw_of_match match_won_tied, raw_without_stats] ''p'' = Inl TypeError"
proof -
  have a: "list_all (readable ''p'') [raw_of_match match_won_tied, raw_of_match match_lost]"
    by (simp add: readable_raw_of_match)
  have b: "\<not> list_all (readable ''p'') [raw_of_match match_won_tied, raw_without_stats]"
    by (simp add: readable_def raw_without_stats_def present_def)
  from a b snapshot_of_readable [of "''p''" "[raw_of_match match_won_tied, raw_of_match match_lost]"]
    snapshot_of_readable [of "''p''" "[raw_of_match match_won_tied, raw_without_stats]"]
  show ?thesis
    by blast
qed

text \<open>
  Claim C7 as it is written fails on a sequence with a match body that lacks a property
  the function reads: one body without \<open>players\<close>, and a complete record followed by a
  body in which the subject has no \<open>stats\<close>. Both calls raise a \<open>TypeError\<close>.
\<close>

theorem snapshot_of_readable_counterexample:
  "calculatePlayerStats_raw [raw_without_players] ''p'' = Inl TypeError
   \<and> calculatePlayerStats_raw [raw_of_match match_won_tied, raw_without_stats] ''p'' = Inl TypeError"
  by (simp add: raw_without_players_raises raw_without_stats_raises)

section \<open>Properties of the upstream client\<close>

subsection \<open>Requests\<close>

lemma fetch_and_store_fst: "fst (fetch_and_store net url ck w) = net url"
  by (simp add: fetch_and_store_def Let_def split: sum.splits)

lemma fetch_and_store_requests:
  "requests (snd (fetch_and_store net url ck w)) = requests w @ [url]"
  by (simp add: fetch_and_store_def Let_def cache_set_def split: sum.splits option.splits)

lemma makeRequest_fst:
  "fst (makeRequest net url ck w) =
     (case cached_response ck w of Some v \<Rightarrow> Inr v | None \<Rightarrow> net url)"
  by (simp add: makeRequest_def fetch_and_store_fst split: option.splits)

lemma makeRequest_requests_le:
  "length (requests (snd (makeRequest net url ck w))) \<le> length (requests w) + 1"
  by (simp add: makeRequest_def fetch_and_store_requests split: option.splits)

lemma settle_all_fst:
  "fst (settle_all net rs w) =
     map (\<lambda>(url, k, hit). case hit of Some v \<Rightarrow> Inr v | None \<Rightarrow> net url) rs"
proof (induction rs arbitrary: w)
  case Nil
  show ?case by simp
next
  case (Cons r rs)
  obtain url k hit where r: "r = (url, k, hit)"
    by (cases r) auto
  show ?case
  proof (cases hit)
    case None
    with r Cons [of "snd (fetch_and_store net url (Some k) w)"] show ?thesis
      by (simp add: split_beta fetch_and_store_fst)
  next
    case (Some v)
    with r Cons [of w] show ?thesis
      by (simp add: split_beta)
  qed
qed

lemma getMatchDetails_all_fst:
  "fst (getMatchDetails_all net mids region w) =
     map (\<lambda>mid. fst (getMatchDetails net mid region w)) mids"
  by (simp add: getMatchDetails_all_def settle_all_fst getMatchDetails_def makeRequest_fst
      comp_def)

lemma Promise_all_map_Inr: "Promise_all (map Inr vs) = Inr vs"
  by (induction vs) simp_all

lemma Promise_all_Inr_D: "Promise_all rs = Inr vs \<Longrightarrow> rs = map Inr vs"
  by (induction rs arbitrary: vs rule: Promise_all.induct) (auto split: sum.splits)

lemma Promise_all_Inr: "(Promise_all rs = Inr vs) = (rs = map Inr vs)"
  using Promise_all_map_Inr Promise_all_Inr_D by blast

lemma Promise_all_Inl: "Promise_all rs = Inl e \<Longrightarrow> Inl e \<in> set rs"
  by (induction rs rule: Promise_all.induct) (auto split: sum.splits)

lemma Promise_all_isl: "isl (Promise_all rs) = (\<exists>r \<in> set rs. isl r)"
  by (induction rs rule: Promise_all.induct) (auto split: sum.splits)

lemma getRecentMatchesWithDetails_fst:
  assumes "fst (getMatchHistory net pid region count w) = Inr body"
    and "history_of body = Some hs"
  shows "fst (getRecentMatchesWithDetails net pid region count w) =
     Promise_all (map (\<lambda>h. fst (getMatchDetails net (matchId h) region
                                   (snd (getMatchHistory net pid region count w)))) hs)"
proof -
  obtain r w1 where g: "getMatchHistory net pid region count w = (r, w1)"
    by (cases "getMatchHistory net pid region count w")
  with assms(1) have r: "r = Inr body" by simp
  show ?thesis
    using assms(2) getMatchDetails_all_fst [of net "map matchId hs" region w1]
    by (simp add: getRecentMatchesWithDetails_def g r split_beta comp_def)
qed

text \<open>
  What \<open>getRecentMatchesWithDetails\<close> does. When the match list is fetched and has a
  history, the call returns a list exactly when every detail request of the fan-out
  succeeds, and the list then holds the bodies of all of them in the order of the history.
  When one detail request fails the call fails: the rejection of \<open>Promise.all\<close> reaches the
  \<open>catch\<close> block, which throws it to the caller, and no partial list is returned. The error
  of a failed call is the error of one of the failed detail requests. A failure of the
  match-list request is thrown to the caller as well.
\<close>

theorem recent_matches_all_or_error:
  "(fst (getMatchHistory net pid region count w) = Inr body \<and> history_of body = Some hs \<longrightarrow>
      (fst (getRecentMatchesWithDetails net pid region count w) = Inr vs)
        = (map (\<lambda>h. fst (getMatchDetails net (matchId h) region
                            (snd (getMatchHistory net pid region count w)))) hs = map Inr vs))
   \<and> (fst (getMatchHistory net pid region count w) = Inr body \<and> history_of body = Some hs
        \<and> fst (getMatchDetails net (matchId h) region
                 (snd (getMatchHistory net pid region count w))) = Inl e
        \<and> h \<in> set hs \<longrightarrow>
      isl (fst (getRecentMatchesWithDetails net pid region count w)))
   \<and> (fst (getMatchHistory net pid region count w) = Inr body \<and> history_of body = Some hs
        \<and> fst (getRecentMatchesWithDetails net pid region count w) = Inl e \<longrightarrow>
      (\<exists>h \<in> set hs. fst (getMatchDetails net (matchId h) region
                            (snd (getMatchHistory net pid region count w))) = Inl e))
   \<and> (fst (getMatchHistory net pid region count w) = Inl e \<longrightarrow>
      fst (getRecentMatchesWithDetails net pid region count w) = Inl e)"
proof (intro conjI impI)
  assume a: "fst (getMatchHistory net pid region count w) = Inr body \<and> history_of body = Some hs"
  then show "(fst (getRecentMatchesWithDetails net pid region count w) = Inr vs)
        = (map (\<lambda>h. fst (getMatchDetails net (matchId h) region
                            (snd (getMatchHistory net pid region count w)))) hs = map Inr vs)"
    by (simp add: getRecentMatchesWithDetails_fst Promise_all_Inr)
next
  assume a: "fst (getMatchHistory net pid region count w) = Inr body \<and> history_of body = Some hs
        \<and> fst (getMatchDetails net (matchId h) region
                 (snd (getMatchHistory net pid region count w))) = Inl e
        \<and> h \<in> set hs"
  then have "fst (getRecentMatchesWithDetails net pid region count w) =
     Promise_all (map (\<lambda>h. fst (getMatchDetails net (matchId h) region
                                   (snd (getMatchHistory net pid region count w)))) hs)"
    by (simp add: getRecentMatchesWithDetails_fst)
  moreover from a have "\<exists>r \<in> set (map (\<lambda>h. fst (getMatchDetails net (matchId h) region
                                   (snd (getMatchHistory net pid region count w)))) hs). isl r"
    by force
  ultimately show "isl (fst (getRecentMatchesWithDetails net pid region count w))"
    by (simp only: Promise_all_isl)
next
  assume a: "fst (getMatchHistory net pid region count w) = Inr body \<and> history_of body = Some hs
        \<and> fst (getRecentMatchesWithDetails net pid region count w) = Inl e"
  then have b: "fst (getMatchHistory net pid region count w) = Inr body"
    and h: "history_of body = Some hs"
    and r: "fst (getRecentMatchesWithDetails net pid region count w) = Inl e"
    by simp_all
  from getRecentMatchesWithDetails_fst [OF b h] r
  have "Promise_all (map (\<lambda>h. fst (getMatchDetails net (matchId h) region
                                   (snd (getMatchHistory net pid region count w)))) hs) = Inl e"
    by simp
  then have "Inl e \<in> set (map (\<lambda>h. fst (getMatchDetails net (matchId h) region
                                   (snd (getMatchHistory net pid region count w)))) hs)"
    by (rule Promise_all_Inl)
  then show "\<exists>h \<in> set hs. fst (getMatchDetails net (matchId h) region
                            (snd (getMatchHistory net pid region count w))) = Inl e"
    by auto
next
  assume "fst (getMatchHistory net pid region count w) = Inl e"
  then show "fst (getRecentMatchesWithDetails net pid region count w) = Inl e"
    by (cases "getMatchHistory net pid region count w")
      (simp add: getRecentMatchesWithDetails_def)
qed

subsection \<open>The sample upstream\<close>

lemmas url_defs = getAccountByRiotId_url_def getMatchHistory_url_def getMatchDetails_url_def
  region_base_def regions_def encodeURIComponent_def unreserved_def hex_digit_def Let_def


lemmas request_defs = getAccountByRiotId_def getMatchHistory_def getMatchDetails_def
  makeRequest_def cached_response_def cache_get_def fetch_and_store_def cache_set_def
  truthy_def stdTTL_def

lemma urls:
  "getMatchHistory_url ''p'' ''europe'' = ''https://europe.api.riotgames.com/val/match/v1/matchlists/by-puuid/p''"
  "getMatchHistory_url ''p'' ''asia'' = ''https://asia.api.riotgames.com/val/match/v1/matchlists/by-puuid/p''"
  "getMatchDetails_url ''m1'' ''europe'' = ''https://europe.api.riotgames.com/val/match/v1/matches/m1''"
  "getMatchDetails_url ''m2'' ''europe'' = ''https://europe.api.riotgames.com/val/match/v1/matches/m2''"
  "getMatchDetails_url ''m3'' ''europe'' = ''https://europe.api.riotgames.com/val/match/v1/matches/m3''"
  "getAccountByRiotId_url ''Player'' ''EUW'' ''europe'' = ''https://europe.api.riotgames.com/riot/account/v1/accounts/by-riot-id/Player/EUW''"
  by (simp_all add: url_defs)

lemma keys:
  "getMatchHistory_key ''p'' 10 = ''matches:p:10''"
  "getMatchHistory_key ''p'' 5 = ''matches:p:5''"
  "getMatchHistory_key ''p'' 1 = ''matches:p:1''"
  "getMatchHistory_key ''p'' 20 = ''matches:p:20''"
  "getMatchDetails_key ''m1'' = ''match:m1''"
  "getMatchDetails_key ''m2'' = ''match:m2''"
  "getMatchDetails_key ''m3'' = ''match:m3''"
  "getAccountByRiotId_key ''Player'' ''EUW'' = ''account:Player:EUW''"
  by code_simp+

lemma sample_history_fetch:
  "fst (getMatchHistory (sample_upstream True f) ''p'' ''europe'' c sample_world)
     = Inr (sample_history [''m1'', ''m2'', ''m3''])"
  by (simp add: makeRequest_fst getMatchHistory_def cached_response_def cache_get_def
      sample_world_def sample_upstream_def urls)

lemma sample_history_fails:
  "fst (getMatchHistory (sample_upstream False f) ''p'' ''europe'' c sample_world)
     = Inl (AxiosError (Some 503))"
  by (simp add: makeRequest_fst getMatchHistory_def cached_response_def cache_get_def
      sample_world_def sample_upstream_def urls)

lemma sample_history_of:
  "history_of (sample_history [''m1'', ''m2'', ''m3''])
     = Some [\<lparr> matchId = ''m1'' \<rparr>, \<lparr> matchId = ''m2'' \<rparr>, \<lparr> matchId = ''m3'' \<rparr>]"
  by (simp add: history_of_def sample_history_def)

lemma sample_details_fetch:
  "fst (getMatchDetails (sample_upstream True f) mid ''europe''
         (snd (getMatchHistory (sample_upstream True f) ''p'' ''europe'' c sample_world)))
     = sample_upstream True f (getMatchDetails_url mid ''europe'')"
  by (simp add: request_defs sample_world_def sample_upstream_def urls sample_history_def
      getMatchHistory_key_def getMatchDetails_key_def)

lemma sample_details:
  "sample_upstream True f (getMatchDetails_url ''m1'' ''europe'')
     = (if ''m1'' \<in> set f then Inl not_found else Inr (MatchDto match_won_tied))"
  "sample_upstream True f (getMatchDetails_url ''m2'' ''europe'')
     = (if ''m2'' \<in> set f then Inl not_found else Inr (MatchDto match_tied))"
  "sample_upstream True f (getMatchDetails_url ''m3'' ''europe'')
     = (if ''m3'' \<in> set f then Inl not_found else Inr (MatchDto match_lost))"
  by (simp_all add: sample_upstream_def urls)

lemma sample_recent_fails:
  "fst (getRecentMatchesWithDetails (sample_upstream True [''m2'']) ''p'' ''europe'' c sample_world)
     = Inl not_found"
  by (simp add: getRecentMatchesWithDetails_fst [OF sample_history_fetch sample_history_of]
      sample_details_fetch sample_details)

text \<open>
  Claim C1 on three listed matches of which the second answers 404. The requests for the
  first and the third succeed, and the claim asks for their two records as the result; the
  call rejects with the 404 instead. (The same fan-out in \<open>getPlayerProfile\<close> drops the
  failed request.)
\<close>

theorem recent_matches_one_failure:
  "fst (getMatchDetails (sample_upstream True [''m2'']) ''m1'' ''europe''
         (snd (getMatchHistory (sample_upstream True [''m2'']) ''p'' ''europe'' 10 sample_world)))
     = Inr (MatchDto match_won_tied)
   \<and> fst (getMatchDetails (sample_upstream True [''m2'']) ''m2'' ''europe''
         (snd (getMatchHistory (sample_upstream True [''m2'']) ''p'' ''europe'' 10 sample_world)))
     = Inl not_found
   \<and> fst (getMatchDetails (sample_upstream True [''m2'']) ''m3'' ''europe''
         (snd (getMatchHistory (sample_upstream True [''m2'']) ''p'' ''europe'' 10 sample_world)))
     = Inr (MatchDto match_lost)
   \<and> fst (getRecentMatchesWithDetails (sample_upstream True [''m2'']) ''p'' ''europe'' 10 sample_world)
     = Inl not_found
   \<and> fst (getRecentMatchesWithDetails (sample_upstream True [''m2'']) ''p'' ''europe'' 10 sample_world)
     \<noteq> Inr [MatchDto match_won_tied, MatchDto match_lost]"
  by (simp add: sample_recent_fails sample_details_fetch sample_details)

text \<open>
  Claim C4 at \<open>count = 1\<close>, with an upstream whose match list has three entries: the call
  requests and returns all three matches. \<open>count\<close> reaches the cache key only.
\<close>

theorem fan_out_ignores_count:
  "fst (getRecentMatchesWithDetails (sample_upstream True []) ''p'' ''europe'' 1 sample_world)
     = Inr [MatchDto match_won_tied, MatchDto match_tied, MatchDto match_lost]
   \<and> requests (snd (getRecentMatchesWithDetails (sample_upstream True []) ''p'' ''europe'' 1 sample_world))
     = [getMatchHistory_url ''p'' ''europe'', getMatchDetails_url ''m1'' ''europe'',
        getMatchDetails_url ''m2'' ''europe'', getMatchDetails_url ''m3'' ''europe'']"
proof
  show "fst (getRecentMatchesWithDetails (sample_upstream True []) ''p'' ''europe'' 1 sample_world)
     = Inr [MatchDto match_won_tied, MatchDto match_tied, MatchDto match_lost]"
    by (simp add: getRecentMatchesWithDetails_fst [OF sample_history_fetch sample_history_of]
      sample_details_fetch sample_details)
  show "requests (snd (getRecentMatchesWithDetails (sample_upstream True []) ''p'' ''europe'' 1 sample_world))
     = [getMatchHistory_url ''p'' ''europe'', getMatchDetails_url ''m1'' ''europe'',
        getMatchDetails_url ''m2'' ''europe'', getMatchDetails_url ''m3'' ''europe'']"
    by code_simp
qed

text \<open>
  On the sample upstream: with match \<open>m2\<close> failing the call fails with the error of \<open>m2\<close>,
  with no match failing it returns the three bodies, and with the match list failing it
  fails with that error.
\<close>

theorem recent_matches_all_or_error_witness:
  "fst (getMatchHistory (sample_upstream True [''m2'']) ''p'' ''europe'' 10 sample_world)
     = Inr (sample_history [''m1'', ''m2'', ''m3''])
   \<and> history_of (sample_history [''m1'', ''m2'', ''m3''])
     = Some [\<lparr> matchId = ''m1'' \<rparr>, \<lparr> matchId = ''m2'' \<rparr>, \<lparr> matchId = ''m3'' \<rparr>]
   \<and> fst (getMatchDetails (sample_upstream True [''m2'']) ''m2'' ''europe''
         (snd (getMatchHistory (sample_upstream True [''m2'']) ''p'' ''europe'' 10 sample_world)))
     = Inl not_found
   \<and> isl (fst (getRecentMatchesWithDetails (sample_upstream True [''m2'']) ''p'' ''europe'' 10 sample_world))
   \<and> fst (getRecentMatchesWithDetails (sample_upstream True [''m2'']) ''p'' ''europe'' 10 sample_world)
     = Inl not_found
   \<and> (\<exists>h \<in> set [\<lparr> matchId = ''m1'' \<rparr>, \<lparr> matchId = ''m2'' \<rparr>, \<lparr> matchId = ''m3'' \<rparr>].
         fst (getMatchDetails (sample_upstream True [''m2'']) (matchId h) ''europe''
           (snd (getMatchHistory (sample_upstream True [''m2'']) ''p'' ''europe'' 10 sample_world)))
         = Inl not_found)
   \<and> fst (getRecentMatchesWithDetails (sample_upstream True []) ''p'' ''europe'' 10 sample_world)
     = Inr [MatchDto match_won_tied, MatchDto match_tied, MatchDto match_lost]
   \<and> fst (getMatchHistory (sample_upstream False []) ''p'' ''europe'' 10 sample_world)
     = Inl (AxiosError (Some 503))
   \<and> fst (getRecentMatchesWithDetails (sample_upstream False []) ''p'' ''europe'' 10 sample_world)
     = Inl (AxiosError (Some 503))"
proof -
  let ?hs = "[\<lparr> matchId = ''m1'' \<rparr>, \<lparr> matchId = ''m2'' \<rparr>, \<lparr> matchId = ''m3'' \<rparr>]"
  have a: "fst (getMatchHistory (sample_upstream True [''m2'']) ''p'' ''europe'' 10 sample_world)
     = Inr (sample_history [''m1'', ''m2'', ''m3''])"
    by (rule sample_history_fetch)
  have a': "fst (getMatchHistory (sample_upstream True []) ''p'' ''europe'' 10 sample_world)
     = Inr (sample_history [''m1'', ''m2'', ''m3''])"
    by (rule sample_history_fetch)
  have b: "history_of (sample_history [''m1'', ''m2'', ''m3'']) = Some ?hs"
    by (rule sample_history_of)
  have c: "fst (getMatchDetails (sample_upstream True [''m2'']) ''m2'' ''europe''
         (snd (getMatchHistory (sample_upstream True [''m2'']) ''p'' ''europe'' 10 sample_world)))
     = Inl not_found"
    by (simp add: sample_details_fetch sample_details)
  have d: "\<lparr> matchId = ''m2'' \<rparr> \<in> set ?hs"
    by simp
  have e: "fst (getMatchHistory (sample_upstream False []) ''p'' ''europe'' 10 sample_world)
     = Inl (AxiosError (Some 503))"
    by (rule sample_history_fails)
  have all: "map (\<lambda>h. fst (getMatchDetails (sample_upstream True []) (matchId h) ''europe''
                 (snd (getMatchHistory (sample_upstream True []) ''p'' ''europe'' 10 sample_world)))) ?hs
     = map Inr [MatchDto match_won_tied, MatchDto match_tied, MatchDto match_lost]"
    by (simp add: sample_details_fetch sample_details)
  from recent_matches_all_or_error
    [of "sample_upstream True [''m2'']" "''p''" "''europe''" 10 sample_world
        "sample_history [''m1'', ''m2'', ''m3'']" ?hs _ "\<lparr> matchId = ''m2'' \<rparr>" not_found]
    a b c d
  have r1: "isl (fst (getRecentMatchesWithDetails (sample_upstream True [''m2'']) ''p'' ''europe'' 10 sample_world))"
    by simp
  have f: "fst (getRecentMatchesWithDetails (sample_upstream True [''m2'']) ''p'' ''europe'' 10 sample_world)
     = Inl not_found"
    by (rule sample_recent_fails)
  from recent_matches_all_or_error
    [of "sample_upstream True [''m2'']" "''p''" "''europe''" 10 sample_world
        "sample_history [''m1'', ''m2'', ''m3'']" ?hs _ _ not_found]
    a b f
  have r1': "\<exists>h \<in> set ?hs.
         fst (getMatchDetails (sample_upstream True [''m2'']) (matchId h) ''europe''
           (snd (getMatchHistory (sample_upstream True [''m2'']) ''p'' ''europe'' 10 sample_world)))
         = Inl not_found"
    by blast
  from recent_matches_all_or_error
    [of "sample_upstream True []" "''p''" "''europe''" 10 sample_world
        "sample_history [''m1'', ''m2'', ''m3'']" ?hs
        "[MatchDto match_won_tied, MatchDto match_tied, MatchDto match_lost]"]
    a' b all
  have r2: "fst (getRecentMatchesWithDetails (sample_upstream True []) ''p'' ''europe'' 10 sample_world)
     = Inr [MatchDto match_won_tied, MatchDto match_tied, MatchDto match_lost]"
    by blast
  from recent_matches_all_or_error
    [of "sample_upstream False []" "''p''" "''europe''" 10 sample_world _ _ _ _ "AxiosError (Some 503)"] e
  have r3: "fst (getRecentMatchesWithDetails (sample_upstream False []) ''p'' ''europe'' 10 sample_world)
     = Inl (AxiosError (Some 503))"
    by blast
  from a b c r1 f r1' r2 e r3 show ?thesis by blast
qed

subsection \<open>The profile\<close>

lemma profile_matches_no_history:
  assumes "no_history (fst (getMatchHistory net pid region 5 w))"
  shows "profile_matches net pid region w = ([], snd (getMatchHistory net pid region 5 w))"
proof (cases "getMatchHistory net pid region 5 w")
  case (Pair r w1)
  with assms show ?thesis
    by (auto simp: profile_matches_def no_history_def split: sum.splits option.splits)
qed

lemma profile_matches_fst:
  assumes "fst (getMatchHistory net pid region 5 w) = Inr body"
    and "history_of body = Some hs"
  shows "fst (profile_matches net pid region w) =
     filter (\<lambda>m. \<not> is_null m)
       (map (\<lambda>h. catch_null (fst (getMatchDetails net (matchId h) region
                                    (snd (getMatchHistory net pid region 5 w))))) (take 5 hs))"
proof (cases "getMatchHistory net pid region 5 w")
  case (Pair r w1)
  with assms(1) have r: "r = Inr body" by simp
  show ?thesis
    using assms(2) getMatchDetails_all_fst [of net "map matchId (take 5 hs)" region w1]
    by (cases hs) (simp_all add: profile_matches_def Pair r split_beta comp_def)
qed

lemma getPlayerProfile_account:
  assumes "fst (getAccountByRiotId net gname tag region w) = Inr (AccountDto a)"
  shows "getPlayerProfile net gname tag region pr w =
     (case profile_statistics
             (fst (profile_matches net (account_puuid a) region
                    (snd (getAccountByRiotId net gname tag region w))))
             (Some (account_puuid a)) of
        Inl e \<Rightarrow> (Inl e, snd (profile_matches net (account_puuid a) region
                    (snd (getAccountByRiotId net gname tag region w))))
      | Inr st \<Rightarrow>
          (Inr \<lparr> account = \<lparr> pa_puuid = Some (account_puuid a),
                              pa_gameName = Some (gameName a),
                              pa_tagLine = Some (tagLine a) \<rparr>,
                 rank = Null, statistics = st,
                 lastUpdated = now (snd (profile_matches net (account_puuid a) region
                    (snd (getAccountByRiotId net gname tag region w)))) \<rparr>,
           snd (profile_matches net (account_puuid a) region
                    (snd (getAccountByRiotId net gname tag region w)))))"
proof (cases "getAccountByRiotId net gname tag region w")
  case (Pair r w1)
  with assms have r: "r = Inr (AccountDto a)" by simp
  show ?thesis
    by (simp add: getPlayerProfile_def Pair r is_null_def account_prop_def template_def
        split_beta Let_def split: sum.splits)
qed

lemma match_records_length:
  "match_records rs = Some xs \<Longrightarrow> length xs = length rs"
  by (induction rs arbitrary: xs rule: match_records.induct) auto

lemma profile_statistics_isl:
  "(profile_statistics rs pid = Inl e) = (e = TypeError \<and> match_records rs = None)"
  by (cases rs) (auto simp: profile_statistics_def split: option.splits)

lemma getPlayerProfile_fails:
  "(fst (getPlayerProfile net gname tag region pr w) = Inl e) =
     (fst (getAccountByRiotId net gname tag region w) = Inl e
      \<or> e = TypeError
        \<and> (\<exists>body. fst (getAccountByRiotId net gname tag region w) = Inr body
             \<and> (is_null body
                \<or> match_records
                     (fst (profile_matches net (template (account_prop account_puuid body)) region
                            (snd (getAccountByRiotId net gname tag region w)))) = None)))"
proof (cases "getAccountByRiotId net gname tag region w")
  case (Pair r w1)
  show ?thesis
  proof (cases r)
    case (Inl e')
    with Pair show ?thesis
      by (simp add: getPlayerProfile_def)
  next
    case (Inr body)
    show ?thesis
    proof (cases "is_null body")
      case True
      with Pair Inr show ?thesis
        by (auto simp: getPlayerProfile_def)
    next
      case False
      with Pair Inr have "(fst (getPlayerProfile net gname tag region pr w) = Inl e) =
          (profile_statistics
             (fst (profile_matches net (template (account_prop account_puuid body)) region w1))
             (account_prop account_puuid body) = Inl e)"
        by (simp add: getPlayerProfile_def split_beta Let_def split: sum.splits)
      with Pair Inr False show ?thesis
        by (simp add: profile_statistics_isl)
    qed
  qed
qed

text \<open>
  Claim C8, as amended. When the account is resolved and the match-history request throws
  or returns no history, \<open>getPlayerProfile\<close> returns a profile whose statistics are the
  all-zero fallback object, with \<open>totalMatches = 0\<close>, and whose rank is null. An error of
  the account request is thrown to the caller. With the account resolved, the bodies that
  remain after the failed detail requests are dropped go to \<open>calculatePlayerStats\<close>, which
  runs outside the inner \<open>try\<close>: when they are all match records a profile is returned,
  and when one of them is not, the \<open>TypeError\<close> is thrown to the caller. The call fails in
  no other way: it fails exactly when the account request fails, or its body is null, or
  a remaining body is not a match record, so no error of the match-history request or of
  a detail request reaches the caller.
\<close>

theorem profile_fallback:
  "(fst (getAccountByRiotId net gname tag region w) = Inr (AccountDto a)
      \<and> no_history (fst (getMatchHistory net (account_puuid a) region 5
                            (snd (getAccountByRiotId net gname tag region w)))) \<longrightarrow>
      (\<exists>p. getPlayerProfile net gname tag region pr w =
              (Inr p, snd (getMatchHistory net (account_puuid a) region 5
                            (snd (getAccountByRiotId net gname tag region w))))
          \<and> statistics p = Fallback fallback_stats
          \<and> statistics_totalMatches (statistics p) = 0
          \<and> rank p = Null
          \<and> pa_puuid (account p) = Some (account_puuid a)))
   \<and> (fst (getAccountByRiotId net gname tag region w) = Inl e \<longrightarrow>
        getPlayerProfile net gname tag region pr w
          = (Inl e, snd (getAccountByRiotId net gname tag region w)))
   \<and> (fst (getAccountByRiotId net gname tag region w) = Inr (AccountDto a)
      \<and> match_records (fst (profile_matches net (account_puuid a) region
                               (snd (getAccountByRiotId net gname tag region w)))) = Some ms \<longrightarrow>
      (\<exists>p. fst (getPlayerProfile net gname tag region pr w) = Inr p
          \<and> statistics_totalMatches (statistics p) = length ms
          \<and> rank p = Null))
   \<and> (fst (getAccountByRiotId net gname tag region w) = Inr (AccountDto a)
      \<and> match_records (fst (profile_matches net (account_puuid a) region
                               (snd (getAccountByRiotId net gname tag region w)))) = None \<longrightarrow>
      fst (getPlayerProfile net gname tag region pr w) = Inl TypeError)
   \<and> ((fst (getPlayerProfile net gname tag region pr w) = Inl e) =
        (fst (getAccountByRiotId net gname tag region w) = Inl e
         \<or> e = TypeError
           \<and> (\<exists>body. fst (getAccountByRiotId net gname tag region w) = Inr body
                \<and> (is_null body
                   \<or> match_records
                        (fst (profile_matches net (template (account_prop account_puuid body)) region
                               (snd (getAccountByRiotId net gname tag region w)))) = None))))"
proof (intro conjI impI)
  assume a: "fst (getAccountByRiotId net gname tag region w) = Inr (AccountDto a)
      \<and> no_history (fst (getMatchHistory net (account_puuid a) region 5
                            (snd (getAccountByRiotId net gname tag region w))))"
  then have "profile_matches net (account_puuid a) region (snd (getAccountByRiotId net gname tag region w))
      = ([], snd (getMatchHistory net (account_puuid a) region 5
                            (snd (getAccountByRiotId net gname tag region w))))"
    by (simp add: profile_matches_no_history)
  with a show "\<exists>p. getPlayerProfile net gname tag region pr w =
              (Inr p, snd (getMatchHistory net (account_puuid a) region 5
                            (snd (getAccountByRiotId net gname tag region w))))
          \<and> statistics p = Fallback fallback_stats
          \<and> statistics_totalMatches (statistics p) = 0
          \<and> rank p = Null
          \<and> pa_puuid (account p) = Some (account_puuid a)"
    by (simp add: getPlayerProfile_account profile_statistics_def statistics_totalMatches_def
        fallback_stats_def)
next
  assume "fst (getAccountByRiotId net gname tag region w) = Inl e"
  then show "getPlayerProfile net gname tag region pr w
          = (Inl e, snd (getAccountByRiotId net gname tag region w))"
    by (cases "getAccountByRiotId net gname tag region w") (simp add: getPlayerProfile_def)
next
  assume a: "fst (getAccountByRiotId net gname tag region w) = Inr (AccountDto a)
      \<and> match_records (fst (profile_matches net (account_puuid a) region
                               (snd (getAccountByRiotId net gname tag region w)))) = Some ms"
  then show "\<exists>p. fst (getPlayerProfile net gname tag region pr w) = Inr p
          \<and> statistics_totalMatches (statistics p) = length ms
          \<and> rank p = Null"
    by (auto simp: getPlayerProfile_account profile_statistics_def statistics_totalMatches_def
        fallback_stats_def calculatePlayerStats_totalMatches dest: match_records_length)
next
  assume a: "fst (getAccountByRiotId net gname tag region w) = Inr (AccountDto a)
      \<and> match_records (fst (profile_matches net (account_puuid a) region
                               (snd (getAccountByRiotId net gname tag region w)))) = None"
  then show "fst (getPlayerProfile net gname tag region pr w) = Inl TypeError"
    by (simp add: getPlayerProfile_fails account_prop_def template_def)
next
  show "(fst (getPlayerProfile net gname tag region pr w) = Inl e) =
        (fst (getAccountByRiotId net gname tag region w) = Inl e
         \<or> e = TypeError
           \<and> (\<exists>body. fst (getAccountByRiotId net gname tag region w) = Inr body
                \<and> (is_null body
                   \<or> match_records
                        (fst (profile_matches net (template (account_prop account_puuid body)) region
                               (snd (getAccountByRiotId net gname tag region w)))) = None)))"
    by (rule getPlayerProfile_fails)
qed

lemma sample_account_fetch:
  "fst (getAccountByRiotId (sample_upstream ok f) ''Player'' ''EUW'' ''europe'' sample_world)
     = Inr (AccountDto sample_account)"
  by (simp add: makeRequest_fst getAccountByRiotId_def cached_response_def cache_get_def
      sample_world_def sample_upstream_def urls)

lemma sample_account_unknown:
  "fst (getAccountByRiotId (sample_upstream ok f) ''Nobody'' ''EUW'' ''europe'' sample_world)
     = Inl not_found"
  by (simp add: makeRequest_fst getAccountByRiotId_def cached_response_def cache_get_def
      sample_world_def sample_upstream_def urls)
    (simp add: url_defs)

lemma sample_profile_history:
  "fst (getMatchHistory (sample_upstream True f) ''p'' ''europe'' 5
         (snd (getAccountByRiotId (sample_upstream True f) ''Player'' ''EUW'' ''europe'' sample_world)))
     = Inr (sample_history [''m1'', ''m2'', ''m3''])"
  by (simp add: request_defs sample_world_def sample_upstream_def urls keys)

lemma sample_profile_details:
  "fst (getMatchDetails (sample_upstream True f) mid ''europe''
         (snd (getMatchHistory (sample_upstream True f) ''p'' ''europe'' 5
           (snd (getAccountByRiotId (sample_upstream True f) ''Player'' ''EUW'' ''europe'' sample_world)))))
     = sample_upstream True f (getMatchDetails_url mid ''europe'')"
  by (simp add: request_defs sample_world_def sample_upstream_def urls keys sample_history_def
      getMatchDetails_key_def)

lemma sample_profile_matches:
  "fst (profile_matches (sample_upstream True [''m2'']) ''p'' ''europe''
         (snd (getAccountByRiotId (sample_upstream True [''m2'']) ''Player'' ''EUW'' ''europe'' sample_world)))
     = [MatchDto match_won_tied, MatchDto match_lost]"
  by (simp add: profile_matches_fst [OF sample_profile_history sample_history_of]
      sample_profile_details sample_details catch_null_def is_null_def)

lemma sample_odd_account:
  "fst (getAccountByRiotId sample_upstream_odd ''Player'' ''EUW'' ''europe'' sample_world)
     = Inr (AccountDto sample_account)"
  by (simp add: makeRequest_fst getAccountByRiotId_def cached_response_def cache_get_def
      sample_world_def sample_upstream_odd_def sample_upstream_def urls)


lemma sample_odd_requests:
  "requests (snd (getPlayerProfile sample_upstream_odd ''Player'' ''EUW'' ''europe'' ''eu'' sample_world))
     = [getAccountByRiotId_url ''Player'' ''EUW'' ''europe'',
        getMatchHistory_url ''p'' ''europe'',
        getMatchDetails_url ''m1'' ''europe'',
        getMatchDetails_url ''m2'' ''europe'',
        getMatchDetails_url ''m3'' ''europe'']"
  by code_simp

lemma sample_odd_answers:
  "map (\<lambda>url. isl (sample_upstream_odd url))
     (requests (snd (getPlayerProfile sample_upstream_odd ''Player'' ''EUW'' ''europe'' ''eu'' sample_world)))
     = [False, False, False, False, False]"
  by code_simp

lemma sample_odd_matches:
  "match_records (fst (profile_matches sample_upstream_odd ''p'' ''europe''
         (snd (getAccountByRiotId sample_upstream_odd ''Player'' ''EUW'' ''europe'' sample_world))))
     = None"
  by code_simp

lemma sample_odd_profile:
  "fst (getPlayerProfile sample_upstream_odd ''Player'' ''EUW'' ''europe'' ''eu'' sample_world)
     = Inl TypeError"
  using sample_odd_account sample_odd_matches
  by (simp add: getPlayerProfile_fails account_prop_def template_def sample_account_def)

theorem profile_fallback_witness:
  "fst (getAccountByRiotId (sample_upstream False []) ''Player'' ''EUW'' ''europe'' sample_world)
     = Inr (AccountDto sample_account)
   \<and> no_history (fst (getMatchHistory (sample_upstream False []) (account_puuid sample_account)
        ''europe'' 5
        (snd (getAccountByRiotId (sample_upstream False []) ''Player'' ''EUW'' ''europe'' sample_world))))
   \<and> (\<exists>p. getPlayerProfile (sample_upstream False []) ''Player'' ''EUW'' ''europe'' ''eu'' sample_world
           = (Inr p, snd (getMatchHistory (sample_upstream False []) (account_puuid sample_account)
                ''europe'' 5
                (snd (getAccountByRiotId (sample_upstream False []) ''Player'' ''EUW'' ''europe''
                       sample_world))))
        \<and> statistics p = Fallback fallback_stats
        \<and> statistics_totalMatches (statistics p) = 0
        \<and> rank p = Null
        \<and> pa_puuid (account p) = Some (account_puuid sample_account))
   \<and> fst (getAccountByRiotId (sample_upstream True []) ''Nobody'' ''EUW'' ''europe'' sample_world)
     = Inl not_found
   \<and> getPlayerProfile (sample_upstream True []) ''Nobody'' ''EUW'' ''europe'' ''eu'' sample_world
     = (Inl not_found,
        snd (getAccountByRiotId (sample_upstream True []) ''Nobody'' ''EUW'' ''europe'' sample_world))
   \<and> match_records (fst (profile_matches (sample_upstream True [''m2'']) (account_puuid sample_account)
        ''europe''
        (snd (getAccountByRiotId (sample_upstream True [''m2'']) ''Player'' ''EUW'' ''europe''
               sample_world))))
     = Some [match_won_tied, match_lost]
   \<and> (\<exists>p. fst (getPlayerProfile (sample_upstream True [''m2'']) ''Player'' ''EUW'' ''europe'' ''eu''
                 sample_world) = Inr p
        \<and> statistics_totalMatches (statistics p) = length [match_won_tied, match_lost]
        \<and> rank p = Null)
   \<and> fst (getAccountByRiotId sample_upstream_odd ''Player'' ''EUW'' ''europe'' sample_world)
     = Inr (AccountDto sample_account)
   \<and> match_records (fst (profile_matches sample_upstream_odd (account_puuid sample_account)
        ''europe''
        (snd (getAccountByRiotId sample_upstream_odd ''Player'' ''EUW'' ''europe'' sample_world))))
     = None
   \<and> fst (getPlayerProfile sample_upstream_odd ''Player'' ''EUW'' ''europe'' ''eu'' sample_world)
     = Inl TypeError"
proof -
  have a1: "fst (getAccountByRiotId (sample_upstream False []) ''Player'' ''EUW'' ''europe'' sample_world)
     = Inr (AccountDto sample_account)"
    by (rule sample_account_fetch)
  have a2: "no_history (fst (getMatchHistory (sample_upstream False []) (account_puuid sample_account)
        ''europe'' 5
        (snd (getAccountByRiotId (sample_upstream False []) ''Player'' ''EUW'' ''europe'' sample_world))))"
    by code_simp
  have b1: "fst (getAccountByRiotId (sample_upstream True []) ''Nobody'' ''EUW'' ''europe'' sample_world)
     = Inl not_found"
    by (rule sample_account_unknown)
  have c1: "fst (getAccountByRiotId (sample_upstream True [''m2'']) ''Player'' ''EUW'' ''europe'' sample_world)
     = Inr (AccountDto sample_account)"
    by (rule sample_account_fetch)
  have c2: "match_records (fst (profile_matches (sample_upstream True [''m2''])
        (account_puuid sample_account) ''europe''
        (snd (getAccountByRiotId (sample_upstream True [''m2'']) ''Player'' ''EUW'' ''europe''
               sample_world))))
     = Some [match_won_tied, match_lost]"
    using sample_profile_matches by (simp add: sample_account_def)
  have d1: "fst (getAccountByRiotId sample_upstream_odd ''Player'' ''EUW'' ''europe'' sample_world)
     = Inr (AccountDto sample_account)"
    by (rule sample_odd_account)
  have d2: "match_records (fst (profile_matches sample_upstream_odd (account_puuid sample_account)
        ''europe''
        (snd (getAccountByRiotId sample_upstream_odd ''Player'' ''EUW'' ''europe'' sample_world))))
     = None"
    using sample_odd_matches by (simp add: sample_account_def)
  note t1 = profile_fallback
    [where net = "sample_upstream False []" and gname = "''Player''" and tag = "''EUW''"
       and region = "''europe''" and w = sample_world and a = sample_account and pr = "''eu''"]
  note t2 = profile_fallback
    [where net = "sample_upstream True []" and gname = "''Nobody''" and tag = "''EUW''"
       and region = "''europe''" and w = sample_world and e = not_found and pr = "''eu''"]
  note t3 = profile_fallback
    [where net = "sample_upstream True [''m2'']" and gname = "''Player''" and tag = "''EUW''"
       and region = "''europe''" and w = sample_world and a = sample_account and pr = "''eu''"
       and ms = "[match_won_tied, match_lost]"]
  from t1 a1 a2 have r1: "\<exists>p. getPlayerProfile (sample_upstream False []) ''Player'' ''EUW'' ''europe'' ''eu'' sample_world
           = (Inr p, snd (getMatchHistory (sample_upstream False []) (account_puuid sample_account)
                ''europe'' 5
                (snd (getAccountByRiotId (sample_upstream False []) ''Player'' ''EUW'' ''europe''
                       sample_world))))
        \<and> statistics p = Fallback fallback_stats
        \<and> statistics_totalMatches (statistics p) = 0
        \<and> rank p = Null
        \<and> pa_puuid (account p) = Some (account_puuid sample_account)"
    by blast
  from t2 b1 have r2: "getPlayerProfile (sample_upstream True []) ''Nobody'' ''EUW'' ''europe'' ''eu'' sample_world
     = (Inl not_found,
        snd (getAccountByRiotId (sample_upstream True []) ''Nobody'' ''EUW'' ''europe'' sample_world))"
    by blast
  from t3 c1 c2 have r3: "\<exists>p. fst (getPlayerProfile (sample_upstream True [''m2'']) ''Player'' ''EUW'' ''europe'' ''eu''
                 sample_world) = Inr p
        \<and> statistics_totalMatches (statistics p) = length [match_won_tied, match_lost]
        \<and> rank p = Null"
    by blast
  note t4 = profile_fallback
    [where net = sample_upstream_odd and gname = "''Player''" and tag = "''EUW''"
       and region = "''europe''" and w = sample_world and a = sample_account and pr = "''eu''"]
  from t4 d1 d2 have r4: "fst (getPlayerProfile sample_upstream_odd ''Player'' ''EUW'' ''europe'' ''eu''
         sample_world) = Inl TypeError"
    by blast
  from a1 a2 r1 b1 r2 c2 r3 d1 d2 r4 show ?thesis
    by blast
qed

text \<open>
  Claim C8 as it is written fails in its last clause. The account is resolved and each of
  the five requests of the call is answered with a body, but the body for the match \<open>m2\<close>
  is not a match, and the call fails with a \<open>TypeError\<close>.
\<close>

theorem profile_fallback_counterexample:
  "fst (getAccountByRiotId sample_upstream_odd ''Player'' ''EUW'' ''europe'' sample_world)
     = Inr (AccountDto sample_account)
   \<and> requests (snd (getPlayerProfile sample_upstream_odd ''Player'' ''EUW'' ''europe'' ''eu''
                      sample_world))
     = [getAccountByRiotId_url ''Player'' ''EUW'' ''europe'',
        getMatchHistory_url ''p'' ''europe'',
        getMatchDetails_url ''m1'' ''europe'',
        getMatchDetails_url ''m2'' ''europe'',
        getMatchDetails_url ''m3'' ''europe'']
   \<and> map (\<lambda>url. isl (sample_upstream_odd url))
        (requests (snd (getPlayerProfile sample_upstream_odd ''Player'' ''EUW'' ''europe'' ''eu''
                         sample_world)))
     = [False, False, False, False, False]
   \<and> fst (getPlayerProfile sample_upstream_odd ''Player'' ''EUW'' ''europe'' ''eu'' sample_world)
     = Inl TypeError"
  using sample_odd_account sample_odd_requests sample_odd_answers sample_odd_profile
  by simp



subsection \<open>Cache keys\<close>

lemma of_char_digit_char: "d < 10 \<Longrightarrow> (of_char (digit_char d) :: nat) = 48 + d"
  by (simp add: digit_char_def)

lemma digit_char_inj: "a < 10 \<Longrightarrow> b < 10 \<Longrightarrow> digit_char a = digit_char b \<Longrightarrow> a = b"
proof -
  assume a: "a < 10" and b: "b < 10" and eq: "digit_char a = digit_char b"
  from eq have "(of_char (digit_char a) :: nat) = of_char (digit_char b)"
    by simp
  with a b show "a = b"
    by (simp add: of_char_digit_char)
qed

lemma show_nat_not_Nil: "show_nat n \<noteq> []"
  by (subst show_nat.simps) simp

lemma show_nat_digits: "c \<in> set (show_nat n) \<Longrightarrow> 48 \<le> (of_char c :: nat) \<and> (of_char c :: nat) \<le> 57"
proof (induction n rule: show_nat.induct)
  case (1 n)
  show ?case
  proof (cases "n < 10")
    case True
    with "1.prems" have "c = digit_char n"
      by (simp add: show_nat_small)
    with True show ?thesis
      by (simp add: of_char_digit_char)
  next
    case False
    with "1.prems" have "c \<in> set (show_nat (n div 10)) \<or> c = digit_char (n mod 10)"
      by (auto simp: show_nat_large)
    then show ?thesis
    proof
      assume "c \<in> set (show_nat (n div 10))"
      with False "1.IH" show ?thesis by simp
    next
      assume "c = digit_char (n mod 10)"
      then show ?thesis
        by (simp add: of_char_digit_char)
    qed
  qed
qed

lemma show_nat_inj: "show_nat a = show_nat b \<Longrightarrow> a = b"
proof (induction a arbitrary: b rule: show_nat.induct)
  case (1 a)
  show ?case
  proof (cases "a < 10")
    case a: True
    show ?thesis
    proof (cases "b < 10")
      case True
      with a "1.prems" show ?thesis
        by (simp add: show_nat_small digit_char_inj)
    next
      case False
      with a "1.prems" show_nat_not_Nil [of "b div 10"] show ?thesis
        by (auto simp: show_nat_small show_nat_large)
    qed
  next
    case a: False
    show ?thesis
    proof (cases "b < 10")
      case True
      with a "1.prems" show_nat_not_Nil [of "a div 10"] show ?thesis
        by (auto simp: show_nat_small show_nat_large)
    next
      case False
      with a "1.prems" have eq: "show_nat (a div 10) = show_nat (b div 10)"
        and d: "digit_char (a mod 10) = digit_char (b mod 10)"
        by (simp_all add: show_nat_large)
      from a eq "1.IH" have "a div 10 = b div 10"
        by simp
      moreover from d have "a mod 10 = b mod 10"
        by (rule digit_char_inj [rotated 2]) simp_all
      ultimately show ?thesis
        by (metis div_mult_mod_eq)
    qed
  qed
qed

lemma show_int_inj: "show_int i = show_int j \<Longrightarrow> i = j"
proof -
  assume eq: "show_int i = show_int j"
  have minus: "CHR ''-'' # xs \<noteq> show_nat n" for xs n
  proof
    assume "CHR ''-'' # xs = show_nat n"
    then have "CHR ''-'' \<in> set (show_nat n)"
      by (metis list.set_intros(1))
    then have "48 \<le> (of_char CHR ''-'' :: nat)"
      by (rule show_nat_digits [THEN conjunct1])
    then show False by simp
  qed
  show "i = j"
  proof (cases "i < 0")
    case i: True
    show ?thesis
    proof (cases "j < 0")
      case True
      with i eq have "nat (- i) = nat (- j)"
        by (simp add: show_int_def show_nat_inj)
      with i True show ?thesis by simp
    next
      case False
      with i eq minus show ?thesis
        by (simp add: show_int_def)
    qed
  next
    case i: False
    show ?thesis
    proof (cases "j < 0")
      case True
      with i eq minus [of "show_nat (nat (- j))" "nat i"] show ?thesis
        by (simp add: show_int_def)
    next
      case False
      with i eq have "nat i = nat j"
        by (simp add: show_int_def show_nat_inj)
      with i False show ?thesis by simp
    qed
  qed
qed

lemma show_int_no_colon: "CHR '':'' \<notin> set (show_int i)"
proof
  assume c: "CHR '':'' \<in> set (show_int i)"
  have "CHR '':'' \<notin> set (show_nat n)" for n
  proof
    assume "CHR '':'' \<in> set (show_nat n)"
    then have "(of_char CHR '':'' :: nat) \<le> 57"
      by (rule show_nat_digits [THEN conjunct2])
    then show False by simp
  qed
  with c show False
    by (simp add: show_int_def split: if_splits)
qed

lemma split_at_first:
  "c \<notin> set a \<Longrightarrow> c \<notin> set b \<Longrightarrow> a @ c # s = b @ c # t \<Longrightarrow> a = b \<and> s = t"
proof (induction a arbitrary: b)
  case Nil
  then show ?case by (cases b) auto
next
  case (Cons y a)
  then show ?case by (cases b) auto
qed

lemma split_at_last:
  assumes "a @ c # s = b @ c # t" and "c \<notin> set s" and "c \<notin> set t"
  shows "a = b \<and> s = t"
proof -
  from assms(1) have "rev (a @ c # s) = rev (b @ c # t)"
    by simp
  then have "rev s @ c # rev a = rev t @ c # rev b"
    by simp
  moreover from assms(2,3) have "c \<notin> set (rev s)" "c \<notin> set (rev t)"
    by simp_all
  ultimately have "rev s = rev t \<and> rev a = rev b"
    by (rule split_at_first [rotated 2])
  then show ?thesis by simp
qed

lemma getMatchHistory_key_inj:
  "(getMatchHistory_key p1 c1 = getMatchHistory_key p2 c2) = (p1 = p2 \<and> c1 = c2)"
proof
  assume "getMatchHistory_key p1 c1 = getMatchHistory_key p2 c2"
  then have "p1 @ CHR '':'' # show_int c1 = p2 @ CHR '':'' # show_int c2"
    by (simp add: getMatchHistory_key_def)
  then have "p1 = p2 \<and> show_int c1 = show_int c2"
    by (rule split_at_last) (rule show_int_no_colon)+
  then show "p1 = p2 \<and> c1 = c2"
    by (simp add: show_int_inj)
next
  assume "p1 = p2 \<and> c1 = c2"
  then show "getMatchHistory_key p1 c1 = getMatchHistory_key p2 c2"
    by simp
qed

lemma getMatchDetails_key_inj:
  "(getMatchDetails_key m1 = getMatchDetails_key m2) = (m1 = m2)"
  by (simp add: getMatchDetails_key_def)

lemma getAccountByRiotId_key_inj:
  assumes "CHR '':'' \<notin> set g1" and "CHR '':'' \<notin> set g2"
  shows "(getAccountByRiotId_key g1 t1 = getAccountByRiotId_key g2 t2) = (g1 = g2 \<and> t1 = t2)"
  using assms split_at_first [of "CHR '':''" g1 g2 t1 t2]
  by (auto simp: getAccountByRiotId_key_def)

lemma keys_of_operations_differ:
  "getAccountByRiotId_key g t \<noteq> getMatchHistory_key p c"
  "getAccountByRiotId_key g t \<noteq> getMatchDetails_key m"
  "getMatchHistory_key p c \<noteq> getMatchDetails_key m"
  by (simp_all add: getAccountByRiotId_key_def getMatchHistory_key_def getMatchDetails_key_def)

subsection \<open>Requests within the TTL\<close>

lemma makeRequest_hit:
  assumes "cached_response ck w = Some v"
  shows "makeRequest net url ck w = (Inr v, w)"
  using assms by (simp add: makeRequest_def)

lemma cached_response_after_store:
  assumes "k \<noteq> []" and "truthy v" and "d \<le> stdTTL"
  shows "cached_response (Some k) ((cache_set k v w)\<lparr> now := now w + d \<rparr>) = Some v"
  using assms by (simp add: cached_response_def cache_get_def cache_set_def)

lemma makeRequest_miss:
  assumes "cached_response (Some k) w = None" and "k \<noteq> []"
    and "makeRequest net url (Some k) w = (Inr v, w1)"
  shows "w1 = cache_set k v (w\<lparr> requests := requests w @ [url] \<rparr>)"
  using assms by (auto simp: makeRequest_def fetch_and_store_def Let_def split: sum.splits)

lemma makeRequest_again:
  assumes first: "makeRequest net url (Some k) w = (Inr v, w1)"
    and v: "truthy v" and k: "k \<noteq> []" and d: "d \<le> stdTTL"
  shows "length (requests (snd (makeRequest net' url' (Some k) (w1\<lparr> now := now w1 + d \<rparr>))))
           \<le> length (requests w) + 1
     \<and> (requests w1 \<noteq> requests w \<longrightarrow>
          makeRequest net' url' (Some k) (w1\<lparr> now := now w1 + d \<rparr>)
            = (Inr v, w1\<lparr> now := now w1 + d \<rparr>))"
proof (cases "cached_response (Some k) w")
  case (Some v')
  with first have w1: "w1 = w"
    by (simp add: makeRequest_def)
  have "length (requests (snd (makeRequest net' url' (Some k) (w\<lparr> now := now w + d \<rparr>))))
      \<le> length (requests (w\<lparr> now := now w + d \<rparr>)) + 1"
    by (rule makeRequest_requests_le)
  with w1 show ?thesis by simp
next
  case None
  from None k first have w1: "w1 = cache_set k v (w\<lparr> requests := requests w @ [url] \<rparr>)"
    by (rule makeRequest_miss)
  have "cached_response (Some k)
      ((cache_set k v (w\<lparr> requests := requests w @ [url] \<rparr>))
         \<lparr> now := now (w\<lparr> requests := requests w @ [url] \<rparr>) + d \<rparr>) = Some v"
    using k v d by (rule cached_response_after_store)
  then have hit: "cached_response (Some k) (w1\<lparr> now := now w1 + d \<rparr>) = Some v"
    by (simp add: w1 cache_set_def)
  have again: "makeRequest net' url' (Some k) (w1\<lparr> now := now w1 + d \<rparr>)
      = (Inr v, w1\<lparr> now := now w1 + d \<rparr>)"
    using hit by (rule makeRequest_hit)
  have "requests w1 = requests w @ [url]"
    by (simp add: w1 cache_set_def)
  with again show ?thesis by simp
qed

lemma key_not_Nil:
  "getAccountByRiotId_key g t \<noteq> []" "getMatchHistory_key p c \<noteq> []" "getMatchDetails_key m \<noteq> []"
  by (simp_all add: getAccountByRiotId_key_def getMatchHistory_key_def getMatchDetails_key_def)

text \<open>
  Claim C3, as amended. The cache key of a read operation is made of the operation's
  name and of its parameters other than the region: game name and tag line, puuid and
  count, match id. A request that follows, within the TTL, a request of the same operation
  with the same such parameters whose answer was a body other than null makes no network
  call when the first one made one, so that the two make at most one; this holds whatever
  the region of the second request is, and it then gets the body the first one got. Two
  match-list requests share a key only if they agree in puuid and count, two match-detail
  requests only if they agree in the match id, two account requests with game names free
  of colons only if they agree in game name and tag line, and requests of different
  operations never.
\<close>

theorem cache_keys:
  "(getAccountByRiotId net gname tag region w = (Inr v, w1) \<and> truthy v \<and> d \<le> stdTTL \<longrightarrow>
      length (requests (snd (getAccountByRiotId net' gname tag region'
                               (w1\<lparr> now := now w1 + d \<rparr>)))) \<le> length (requests w) + 1
      \<and> (requests w1 \<noteq> requests w \<longrightarrow>
           getAccountByRiotId net' gname tag region' (w1\<lparr> now := now w1 + d \<rparr>)
             = (Inr v, w1\<lparr> now := now w1 + d \<rparr>)))
   \<and> (getMatchHistory net pid region count w = (Inr v, w1) \<and> truthy v \<and> d \<le> stdTTL \<longrightarrow>
      length (requests (snd (getMatchHistory net' pid region' count
                               (w1\<lparr> now := now w1 + d \<rparr>)))) \<le> length (requests w) + 1
      \<and> (requests w1 \<noteq> requests w \<longrightarrow>
           getMatchHistory net' pid region' count (w1\<lparr> now := now w1 + d \<rparr>)
             = (Inr v, w1\<lparr> now := now w1 + d \<rparr>)))
   \<and> (getMatchDetails net mid region w = (Inr v, w1) \<and> truthy v \<and> d \<le> stdTTL \<longrightarrow>
      length (requests (snd (getMatchDetails net' mid region'
                               (w1\<lparr> now := now w1 + d \<rparr>)))) \<le> length (requests w) + 1
      \<and> (requests w1 \<noteq> requests w \<longrightarrow>
           getMatchDetails net' mid region' (w1\<lparr> now := now w1 + d \<rparr>)
             = (Inr v, w1\<lparr> now := now w1 + d \<rparr>)))
   \<and> (getMatchHistory_key p1 c1 = getMatchHistory_key p2 c2) = (p1 = p2 \<and> c1 = c2)
   \<and> (getMatchDetails_key m1 = getMatchDetails_key m2) = (m1 = m2)
   \<and> (CHR '':'' \<notin> set g1 \<and> CHR '':'' \<notin> set g2 \<longrightarrow>
        (getAccountByRiotId_key g1 t1 = getAccountByRiotId_key g2 t2) = (g1 = g2 \<and> t1 = t2))
   \<and> getAccountByRiotId_key g1 t1 \<noteq> getMatchHistory_key p1 c1
   \<and> getAccountByRiotId_key g1 t1 \<noteq> getMatchDetails_key m1
   \<and> getMatchHistory_key p1 c1 \<noteq> getMatchDetails_key m1"
proof (intro conjI impI)
  assume "getAccountByRiotId net gname tag region w = (Inr v, w1) \<and> truthy v \<and> d \<le> stdTTL"
  then have a: "makeRequest net (getAccountByRiotId_url gname tag region)
      (Some (getAccountByRiotId_key gname tag)) w = (Inr v, w1)" and v: "truthy v"
    and d: "d \<le> stdTTL"
    by (simp_all add: getAccountByRiotId_def)
  note r = makeRequest_again [OF a v key_not_Nil(1) d,
      of net' "getAccountByRiotId_url gname tag region'"]
  from r show "length (requests (snd (getAccountByRiotId net' gname tag region'
      (w1\<lparr> now := now w1 + d \<rparr>)))) \<le> length (requests w) + 1"
    by (simp add: getAccountByRiotId_def)
  assume "requests w1 \<noteq> requests w"
  with r show "getAccountByRiotId net' gname tag region' (w1\<lparr> now := now w1 + d \<rparr>)
      = (Inr v, w1\<lparr> now := now w1 + d \<rparr>)"
    by (simp add: getAccountByRiotId_def)
next
  assume "getMatchHistory net pid region count w = (Inr v, w1) \<and> truthy v \<and> d \<le> stdTTL"
  then have a: "makeRequest net (getMatchHistory_url pid region)
      (Some (getMatchHistory_key pid count)) w = (Inr v, w1)" and v: "truthy v"
    and d: "d \<le> stdTTL"
    by (simp_all add: getMatchHistory_def)
  note r = makeRequest_again [OF a v key_not_Nil(2) d,
      of net' "getMatchHistory_url pid region'"]
  from r show "length (requests (snd (getMatchHistory net' pid region' count
      (w1\<lparr> now := now w1 + d \<rparr>)))) \<le> length (requests w) + 1"
    by (simp add: getMatchHistory_def)
  assume "requests w1 \<noteq> requests w"
  with r show "getMatchHistory net' pid region' count (w1\<lparr> now := now w1 + d \<rparr>)
      = (Inr v, w1\<lparr> now := now w1 + d \<rparr>)"
    by (simp add: getMatchHistory_def)
next
  assume "getMatchDetails net mid region w = (Inr v, w1) \<and> truthy v \<and> d \<le> stdTTL"
  then have a: "makeRequest net (getMatchDetails_url mid region)
      (Some (getMatchDetails_key mid)) w = (Inr v, w1)" and v: "truthy v"
    and d: "d \<le> stdTTL"
    by (simp_all add: getMatchDetails_def)
  note r = makeRequest_again [OF a v key_not_Nil(3) d,
      of net' "getMatchDetails_url mid region'"]
  from r show "length (requests (snd (getMatchDetails net' mid region'
      (w1\<lparr> now := now w1 + d \<rparr>)))) \<le> length (requests w) + 1"
    by (simp add: getMatchDetails_def)
  assume "requests w1 \<noteq> requests w"
  with r show "getMatchDetails net' mid region' (w1\<lparr> now := now w1 + d \<rparr>)
      = (Inr v, w1\<lparr> now := now w1 + d \<rparr>)"
    by (simp add: getMatchDetails_def)
next
  show "(getMatchHistory_key p1 c1 = getMatchHistory_key p2 c2) = (p1 = p2 \<and> c1 = c2)"
    by (rule getMatchHistory_key_inj)
next
  show "(getMatchDetails_key m1 = getMatchDetails_key m2) = (m1 = m2)"
    by (rule getMatchDetails_key_inj)
next
  assume "CHR '':'' \<notin> set g1 \<and> CHR '':'' \<notin> set g2"
  then show "(getAccountByRiotId_key g1 t1 = getAccountByRiotId_key g2 t2) = (g1 = g2 \<and> t1 = t2)"
    by (simp add: getAccountByRiotId_key_inj)
next
  show "getAccountByRiotId_key g1 t1 \<noteq> getMatchHistory_key p1 c1"
    by (rule keys_of_operations_differ)
next
  show "getAccountByRiotId_key g1 t1 \<noteq> getMatchDetails_key m1"
    by (rule keys_of_operations_differ)
next
  show "getMatchHistory_key p1 c1 \<noteq> getMatchDetails_key m1"
    by (rule keys_of_operations_differ)
qed

text \<open>
  Claim C3 as it is written fails for two match-list requests that differ in the region
  only: their URLs differ and upstream has different lists for them, yet the request for
  asia, made after the one for europe, is answered with the list of europe and sends
  nothing to upstream.
\<close>

theorem cache_keys_counterexample:
  "getMatchHistory_url ''p'' ''europe'' \<noteq> getMatchHistory_url ''p'' ''asia''
   \<and> body_ids (fst (getMatchHistory (sample_upstream True []) ''p'' ''asia'' 20 sample_world))
     = Some [''m9'']
   \<and> body_ids (fst (getMatchHistory (sample_upstream True []) ''p'' ''asia'' 20
        (snd (getMatchHistory (sample_upstream True []) ''p'' ''europe'' 20 sample_world))))
     = Some [''m1'', ''m2'', ''m3'']
   \<and> requests (snd (getMatchHistory (sample_upstream True []) ''p'' ''asia'' 20
        (snd (getMatchHistory (sample_upstream True []) ''p'' ''europe'' 20 sample_world))))
     = [getMatchHistory_url ''p'' ''europe'']"
  by code_simp

lemma sample_details_first:
  "fst (getMatchDetails (sample_upstream True []) ''m1'' ''europe'' sample_world)
     = Inr (MatchDto match_won_tied)"
  by (simp add: makeRequest_fst getMatchDetails_def cached_response_def cache_get_def
      sample_world_def sample_details)

lemma sample_truthy:
  "truthy (AccountDto sample_account)"
  "truthy (sample_history [''m1'', ''m2'', ''m3''])"
  "truthy (MatchDto match_won_tied)"
  by (simp_all add: truthy_def sample_history_def)

text \<open>
  The amended claim C3 on the sample upstream, the second request being for asia, 300
  seconds after the first.
\<close>

theorem cache_keys_witness:
  "getAccountByRiotId (sample_upstream True []) ''Player'' ''EUW'' ''europe'' sample_world
     = (Inr (AccountDto sample_account),
        snd (getAccountByRiotId (sample_upstream True []) ''Player'' ''EUW'' ''europe'' sample_world))
   \<and> truthy (AccountDto sample_account)
   \<and> (300 :: nat) \<le> stdTTL
   \<and> getAccountByRiotId (sample_upstream False []) ''Player'' ''EUW'' ''asia''
        ((snd (getAccountByRiotId (sample_upstream True []) ''Player'' ''EUW'' ''europe'' sample_world))
           \<lparr> now := now (snd (getAccountByRiotId (sample_upstream True []) ''Player'' ''EUW''
                                 ''europe'' sample_world)) + 300 \<rparr>)
     = (Inr (AccountDto sample_account),
        (snd (getAccountByRiotId (sample_upstream True []) ''Player'' ''EUW'' ''europe'' sample_world))
           \<lparr> now := now (snd (getAccountByRiotId (sample_upstream True []) ''Player'' ''EUW''
                                 ''europe'' sample_world)) + 300 \<rparr>)
   \<and> getMatchHistory (sample_upstream True []) ''p'' ''europe'' 20 sample_world
     = (Inr (sample_history [''m1'', ''m2'', ''m3'']),
        snd (getMatchHistory (sample_upstream True []) ''p'' ''europe'' 20 sample_world))
   \<and> truthy (sample_history [''m1'', ''m2'', ''m3''])
   \<and> getMatchHistory (sample_upstream True []) ''p'' ''asia'' 20
        ((snd (getMatchHistory (sample_upstream True []) ''p'' ''europe'' 20 sample_world))
           \<lparr> now := now (snd (getMatchHistory (sample_upstream True []) ''p'' ''europe'' 20
                                 sample_world)) + 300 \<rparr>)
     = (Inr (sample_history [''m1'', ''m2'', ''m3'']),
        (snd (getMatchHistory (sample_upstream True []) ''p'' ''europe'' 20 sample_world))
           \<lparr> now := now (snd (getMatchHistory (sample_upstream True []) ''p'' ''europe'' 20
                                 sample_world)) + 300 \<rparr>)
   \<and> getMatchDetails (sample_upstream True []) ''m1'' ''europe'' sample_world
     = (Inr (MatchDto match_won_tied),
        snd (getMatchDetails (sample_upstream True []) ''m1'' ''europe'' sample_world))
   \<and> truthy (MatchDto match_won_tied)
   \<and> length (requests (snd (getMatchDetails (sample_upstream True [''m1'']) ''m1'' ''asia''
        ((snd (getMatchDetails (sample_upstream True []) ''m1'' ''europe'' sample_world))
           \<lparr> now := now (snd (getMatchDetails (sample_upstream True []) ''m1'' ''europe''
                                 sample_world)) + 300 \<rparr>))))
       \<le> length (requests sample_world) + 1
   \<and> CHR '':'' \<notin> set ''Player'' \<and> CHR '':'' \<notin> set ''Other''
   \<and> getAccountByRiotId_key ''Player'' ''EUW'' \<noteq> getAccountByRiotId_key ''Other'' ''EUW''"
proof -
  let ?A = "getAccountByRiotId (sample_upstream True []) ''Player'' ''EUW'' ''europe'' sample_world"
  let ?H = "getMatchHistory (sample_upstream True []) ''p'' ''europe'' 20 sample_world"
  let ?D = "getMatchDetails (sample_upstream True []) ''m1'' ''europe'' sample_world"
  have a: "?A = (Inr (AccountDto sample_account), snd ?A)"
    using sample_account_fetch [of True "[]"] by (metis prod.collapse)
  have h: "?H = (Inr (sample_history [''m1'', ''m2'', ''m3'']), snd ?H)"
    using sample_history_fetch [of "[]" 20] by (metis prod.collapse)
  have d: "?D = (Inr (MatchDto match_won_tied), snd ?D)"
    using sample_details_first by (metis prod.collapse)
  have ttl: "(300 :: nat) \<le> stdTTL"
    by (simp add: stdTTL_def)
  have ra: "requests (snd ?A) \<noteq> requests sample_world"
    by code_simp
  have rh: "requests (snd ?H) \<noteq> requests sample_world"
    by code_simp
  have colon: "CHR '':'' \<notin> set ''Player'' \<and> CHR '':'' \<notin> set ''Other''"
    by simp
  note t1 = cache_keys
    [where net = "sample_upstream True []" and gname = "''Player''" and tag = "''EUW''"
       and region = "''europe''" and w = sample_world and v = "AccountDto sample_account"
       and ?w1.0 = "snd ?A" and d = 300 and net' = "sample_upstream False []"
       and region' = "''asia''"]
  note t2 = cache_keys
    [where net = "sample_upstream True []" and pid = "''p''" and count = 20
       and region = "''europe''" and w = sample_world
       and v = "sample_history [''m1'', ''m2'', ''m3'']"
       and ?w1.0 = "snd ?H" and d = 300 and net' = "sample_upstream True []"
       and region' = "''asia''"]
  note t3 = cache_keys
    [where net = "sample_upstream True []" and mid = "''m1''"
       and region = "''europe''" and w = sample_world and v = "MatchDto match_won_tied"
       and ?w1.0 = "snd ?D" and d = 300 and net' = "sample_upstream True [''m1'']"
       and region' = "''asia''"]
  note t4 = cache_keys
    [where ?g1.0 = "''Player''" and ?g2.0 = "''Other''" and ?t1.0 = "''EUW''" and ?t2.0 = "''EUW''"]
  from t1 a sample_truthy(1) ttl ra
  have r1: "getAccountByRiotId (sample_upstream False []) ''Player'' ''EUW'' ''asia''
        ((snd ?A) \<lparr> now := now (snd ?A) + 300 \<rparr>)
     = (Inr (AccountDto sample_account), (snd ?A) \<lparr> now := now (snd ?A) + 300 \<rparr>)"
    by blast
  from t2 h sample_truthy(2) ttl rh
  have r2: "getMatchHistory (sample_upstream True []) ''p'' ''asia'' 20
        ((snd ?H) \<lparr> now := now (snd ?H) + 300 \<rparr>)
     = (Inr (sample_history [''m1'', ''m2'', ''m3'']), (snd ?H) \<lparr> now := now (snd ?H) + 300 \<rparr>)"
    by blast
  from t3 d sample_truthy(3) ttl
  have r3: "length (requests (snd (getMatchDetails (sample_upstream True [''m1'']) ''m1'' ''asia''
        ((snd ?D) \<lparr> now := now (snd ?D) + 300 \<rparr>)))) \<le> length (requests sample_world) + 1"
    by blast
  from t4 colon
  have r4: "getAccountByRiotId_key ''Player'' ''EUW'' \<noteq> getAccountByRiotId_key ''Other'' ''EUW''"
    by simp
  from a sample_truthy ttl r1 h r2 d r3 colon r4 show ?thesis
    by blast
qed

end
